theory Spec2Isabelle
  imports Complex_Main
begin

section \<open>Dark-flight propagator: shallow embedding\<close>

text \<open>
  The Python sources are \<^verbatim>\<open>DFN_DarkFlight.py\<close> (the network variant),
  \<^verbatim>\<open>DarkFlight_main.py\<close> (the variant with lift) and \<^verbatim>\<open>df_functions.py\<close>
  (the atmosphere sampler both import).  Python floats are modelled as \<^typ>\<open>real\<close>:
  comparisons and branch selection are exact, rounding, \<^verbatim>\<open>nan\<close> and
  \<^verbatim>\<open>inf\<close> are not represented.  Python ints are \<^typ>\<open>nat\<close> where the source
  only has lengths and counts.
\<close>

datatype py_error = IndexError | ValueError | ZeroDivisionError | TypeError

subsection \<open>The parallel runner (\<^verbatim>\<open>__main__\<close>)\<close>

text \<open>
  \<^verbatim>\<open>N = len(M); n = np.array([N//size]*size); n[:(N%size)] += 1\<close>
  (DFN_DarkFlight.py 878-880, DarkFlight_main.py 571).  \<open>sz\<close> is \<^verbatim>\<open>comm.size\<close>.
\<close>

definition main_partition :: "nat \<Rightarrow> nat \<Rightarrow> py_error + nat list" where
  "main_partition N sz =
     (if sz = 0 then Inl ZeroDivisionError
      else let n = replicate sz (N div sz);
               k = N mod sz
           in Inr (map (\<lambda>x. x + 1) (take k n) @ drop k n))"

text \<open>
  \<^verbatim>\<open>displacements = np.hstack((0, np.cumsum(sendcounts)[:-1]))\<close>, counted in rows
  (the source multiplies counts and displacements by the row width \<^verbatim>\<open>states0\<close>).
\<close>

definition displacements :: "nat list \<Rightarrow> nat list" where
  "displacements n = map (\<lambda>r. sum_list (take r n)) [0..<length n]"

text \<open>
  What one MPI rank does with its share: \<^verbatim>\<open>if not n[rank]: print('Terminating
  additional core.'); exit()\<close> comes before the scatter, the propagation and the
  gather; any other rank receives the contiguous block of \<^verbatim>\<open>n[rank]\<close> rows that
  \<^verbatim>\<open>Scatterv\<close> cuts out of \<^verbatim>\<open>DATA0\<close>.
\<close>

datatype 'row rank_outcome = Terminated | Received "'row list"

definition main_rank :: "nat list \<Rightarrow> nat \<Rightarrow> 'row list \<Rightarrow> py_error + 'row rank_outcome" where
  "main_rank n rank DATA0 =
     (if rank \<ge> length n then Inl IndexError
      else if n ! rank = 0 then Inr Terminated
      else Inr (Received (take (n ! rank) (drop (displacements n ! rank) DATA0))))"

text \<open>The rows a rank hands to \<^verbatim>\<open>Gatherv\<close>: none once it has exited.\<close>

fun rows_contributed :: "py_error + 'row rank_outcome \<Rightarrow> nat" where
  "rows_contributed (Inr (Received rows)) = length rows"
| "rows_contributed _ = 0"

subsection \<open>Particle parameters (\<^verbatim>\<open>InitialiseParams\<close>)\<close>

text \<open>
  \<^verbatim>\<open>cd_hypersonic\<close> is imported from \<^verbatim>\<open>atm_functions\<close>, which is not among the
  sources; it enters every definition below as the parameter \<open>cd_hypersonic\<close>.

  The shape argument of DFN_DarkFlight.py is the command-line string: \<^verbatim>\<open>'s'\<close>,
  \<^verbatim>\<open>'c'\<close>, \<^verbatim>\<open>'b'\<close>, a float literal, or anything else, on which
  \<^verbatim>\<open>float(shape)\<close> raises \<^verbatim>\<open>ValueError\<close> before the final \<^verbatim>\<open>else\<close> is reached.
\<close>

datatype shape_arg = Shape_s | Shape_c | Shape_b | Shape_float real | Shape_other

fun shape_factor :: "shape_arg \<Rightarrow> py_error + real" where
  "shape_factor Shape_s = Inr (121 / 100)"
| "shape_factor Shape_c = Inr (160 / 100)"
| "shape_factor Shape_b = Inr (27 / 10)"
| "shape_factor (Shape_float x) = Inr x"
| "shape_factor Shape_other = Inl ValueError"

text \<open>\<^verbatim>\<open>c_ml[mask] = v\<close> on numpy arrays.\<close>

definition mask_assign :: "bool list \<Rightarrow> real \<Rightarrow> real list \<Rightarrow> real list" where
  "mask_assign msk v c = map (\<lambda>(m, x). if m then v else x) (zip msk c)"

text \<open>
  DFN_DarkFlight.py 336-373.  \<open>rho\<close> is the array of bulk densities (a float is wrapped
  into a one-element array first); the result is the pair \<^verbatim>\<open>(shape, c_ml)\<close> of the
  returned dictionary, \<^verbatim>\<open>c_ml\<close> with one entry per density.
\<close>

definition InitialiseParams :: "(real \<Rightarrow> real) \<Rightarrow> real list \<Rightarrow> shape_arg \<Rightarrow> py_error + (real \<times> real list)" where
  "InitialiseParams cd_hypersonic rho shape =
     (case shape_factor shape of
        Inl e \<Rightarrow> Inl e
      | Inr A \<Rightarrow>
          let cd_hyp = cd_hypersonic A;
              c_ml = replicate (length rho) 0;
              c_ml = mask_assign (map (\<lambda>r. r > 5000) rho) (7 / 10 ^ 8 * cd_hyp) c_ml;
              c_ml = mask_assign (map (\<lambda>r. r > 2500 \<and> r \<le> 5000) rho) (14 / 10 ^ 9 * cd_hyp) c_ml;
              c_ml = mask_assign (map (\<lambda>r. r > 1500 \<and> r \<le> 2500) rho) (42 / 10 ^ 9 * cd_hyp) c_ml;
              c_ml = mask_assign (map (\<lambda>r. r \<le> 1500) rho) (1 / 10 ^ 7 * cd_hyp) c_ml
          in Inr (A, c_ml))"

text \<open>
  DarkFlight_main.py 220-227: the shape factor is the float given on the command line,
  and \<^verbatim>\<open>c_ml = 0.042e-6 * cd_hyp\<close> whatever the density.
\<close>

definition InitialiseParams_lift :: "(real \<Rightarrow> real) \<Rightarrow> real list \<Rightarrow> real \<Rightarrow> real \<times> real" where
  "InitialiseParams_lift cd_hypersonic rho shape =
     (let A = shape;
          cd_hyp = cd_hypersonic A;
          c_ml = 42 / 10 ^ 9 * cd_hyp
      in (A, c_ml))"

text \<open>
  The table of the specification (section 4.C): \<open>\<sigma>\<close> by bulk-density band, written
  from the specification's words to compare the code with.
\<close>

definition sigma_band :: "real \<Rightarrow> real" where
  "sigma_band rho_bulk =
     (if rho_bulk > 5000 then 7 / 10 ^ 8
      else if rho_bulk > 2500 then 14 / 10 ^ 9
      else if rho_bulk > 1500 then 42 / 10 ^ 9
      else 1 / 10 ^ 7)"

subsection \<open>Atmosphere data and its Monte-Carlo perturbation\<close>

text \<open>
  A 1-D sounding is an astropy \<^verbatim>\<open>Table\<close> with the columns \<^verbatim>\<open># Height, TempK,
  Press, RHum, Wind, WDir\<close>: a list of rows.  A 3-D forecast is the array
  \<^verbatim>\<open>WindArray[field, z, y, x]\<close> built by \<^verbatim>\<open>WindDataExtraction\<close> with the fields
  \<^verbatim>\<open>[lat, lon, hei, we, wn, wu, temp, pres, rh]\<close>: a list of fields, each holding its
  cells in the array's (row-major) order.
\<close>

record layer =
  Height :: real
  TempK :: real
  Press :: real
  RHum :: real
  Wind :: real
  WDir :: real

datatype WindData = Table "layer list" | WindArray "real list list"

text \<open>
  The generator behind \<^verbatim>\<open>np.random\<close>: a sequence of draws from \<open>[0, 1)\<close> and the
  number already taken.  \<^verbatim>\<open>np.random.uniform(low, high, size)\<close> returns
  \<^verbatim>\<open>low + (high - low) * u\<close> for \<open>size\<close> fresh draws \<open>u\<close>.
\<close>

type_synonym rng = "(nat \<Rightarrow> real) \<times> nat"


definition uniform :: "real \<Rightarrow> real \<Rightarrow> nat \<Rightarrow> rng \<Rightarrow> real list \<times> rng" where
  "uniform low high n g =
     (map (\<lambda>i. low + (high - low) * fst g (snd g + i)) [0..<n], (fst g, snd g + n))"

text \<open>\<^verbatim>\<open>np.mod(x, m)\<close> on floats: the remainder has the sign of \<open>m\<close>.\<close>

definition np_mod :: "real \<Rightarrow> real \<Rightarrow> real" where
  "np_mod x m = x - m * of_int \<lfloor>x / m\<rfloor>"

text \<open>
  DFN_DarkFlight.py 419-433, the start of \<^verbatim>\<open>Propagate\<close>:
  \<^verbatim>\<open>newWindData = copy.deepcopy(WindData)\<close>, then under \<^verbatim>\<open>if mc:\<close> the columns
  \<^verbatim>\<open>Wind\<close> and \<^verbatim>\<open>WDir\<close> of a sounding, or the fields 3 and 4 of a forecast, are
  overwritten; field 5 is "left untouched".  The lower bound of the direction draw is
  \<^verbatim>\<open>-windspd_err\<close> in the source.
\<close>

definition Propagate_newWindData ::
  "WindData \<Rightarrow> real \<Rightarrow> real \<Rightarrow> int \<Rightarrow> rng \<Rightarrow> py_error + (WindData \<times> rng)" where
  "Propagate_newWindData WindData windspd_err winddir_err mc g =
     (if mc = 0 then Inr (WindData, g)
      else case WindData of
        Table rows \<Rightarrow>
          let (dw, g1) = uniform (- windspd_err) windspd_err (length rows) g;
              rows1 = map (\<lambda>(l, d). l\<lparr>Wind := Wind l + d\<rparr>) (zip rows dw);
              (dd, g2) = uniform (- windspd_err) winddir_err (length rows) g1;
              rows2 = map (\<lambda>(l, l0, d). l\<lparr>WDir := WDir l0 + d\<rparr>) (zip rows1 (zip rows dd));
              rows3 = map (\<lambda>l. l\<lparr>WDir := np_mod (WDir l) 360\<rparr>) rows2
          in Inr (Table rows3, g2)
      | WindArray flds \<Rightarrow>
          if length flds \<le> 4 then Inl IndexError
          else
            let (d3, g1) = uniform (- windspd_err) windspd_err (length (flds ! 3)) g;
                fields1 = flds[3 := map (\<lambda>(x, d). x + d) (zip (flds ! 3) d3)];
                (d4, g2) = uniform (- windspd_err) windspd_err (length (flds ! 4)) g1;
                fields2 = fields1[4 := map (\<lambda>(x, d). x + d) (zip (flds ! 4) d4)]
            in Inr (WindArray fields2, g2))"

subsection \<open>Vectors and the imported modules\<close>

text \<open>
  Positions, velocities and accelerations are numpy column vectors of three floats.
  \<open>norm_v\<close> is \<^verbatim>\<open>numpy.linalg.norm\<close>, \<open>cross\<close> is \<^verbatim>\<open>np.cross\<close>.
\<close>

type_synonym vec3 = "real \<times> real \<times> real"

fun norm_v :: "vec3 \<Rightarrow> real" where
  "norm_v (x, y, z) = sqrt (x\<^sup>2 + y\<^sup>2 + z\<^sup>2)"

fun vadd :: "vec3 \<Rightarrow> vec3 \<Rightarrow> vec3" where
  "vadd (a, b, c) (x, y, z) = (a + x, b + y, c + z)"

fun vsub :: "vec3 \<Rightarrow> vec3 \<Rightarrow> vec3" where
  "vsub (a, b, c) (x, y, z) = (a - x, b - y, c - z)"

fun smul :: "real \<Rightarrow> vec3 \<Rightarrow> vec3" where
  "smul k (x, y, z) = (k * x, k * y, k * z)"

fun sdiv :: "vec3 \<Rightarrow> real \<Rightarrow> vec3" where
  "sdiv (x, y, z) k = (x / k, y / k, z / k)"

fun cross :: "vec3 \<Rightarrow> vec3 \<Rightarrow> vec3" where
  "cross (a, b, c) (x, y, z) = (b * z - c * y, c * x - a * z, a * y - b * x)"

definition deg2rad :: "real \<Rightarrow> real" where
  "deg2rad d = d * pi / 180"

definition rad2deg :: "real \<Rightarrow> real" where
  "rad2deg r = r * 180 / pi"

text \<open>
  One entry of the global list \<^verbatim>\<open>WRF_history\<close>:
  \<^verbatim>\<open>np.vstack((h, Wind_ENU, rho_a, TempK))\<close>.
\<close>

type_synonym hist_entry = "real \<times> vec3 \<times> real \<times> real"

text \<open>
  The functions the three sources import from modules that are not among them
  (\<^verbatim>\<open>trajectory_utilities\<close>, \<^verbatim>\<open>orbital_utilities\<close>, \<^verbatim>\<open>atm_functions\<close>,
  \<^verbatim>\<open>scipy\<close>, \<^verbatim>\<open>srtm\<close>) are the fields of one record that every definition below
  takes as its first argument; nothing is assumed about them.
  \<^item> \<open>ECEF2LLH\<close> returns (latitude, longitude, height), angles in radians;
  \<^item> \<open>NRLMSISE_00\<close> returns the first three outputs (temperature, pressure, density);
  \<^item> \<open>interp1d_cubic xs ys\<close> is \<^verbatim>\<open>interp1d(xs, ys, kind='cubic')\<close>;
  \<^item> \<open>dragcoeff\<close> returns \<^verbatim>\<open>(cd, re, kn, mach)\<close>;
  \<^item> \<open>ENU2ECEF lon lat\<close> is the rotation matrix applied to a vector;
  \<^item> \<open>ECEF2ECI\<close> returns position and velocity;
  \<^item> \<open>WRF3D\<close> is the 3-D sampler of df_functions.py, whose body consists of calls into
    \<^verbatim>\<open>wrf\<close> and \<^verbatim>\<open>scipy.interpolate.griddata\<close>; it reads and extends the history;
  \<^item> \<open>max_height_3d\<close> is what Python's builtin \<^verbatim>\<open>max\<close> makes of
    \<^verbatim>\<open>WindData[2,:,:,:]\<close>, a value or the \<^verbatim>\<open>ValueError\<close> of comparing arrays;
  \<^item> \<open>get_elevation\<close> is the SRTM lookup, \<open>None\<close> for a void or a missing tile.
\<close>

record env =
  ECEF2LLH :: "vec3 \<Rightarrow> vec3"
  ECI2ECEF_pos :: "vec3 \<Rightarrow> real \<Rightarrow> vec3"
  ECEF2ECI_pos :: "vec3 \<Rightarrow> real \<Rightarrow> vec3"
  ECEF2ECI :: "vec3 \<Rightarrow> vec3 \<Rightarrow> real \<Rightarrow> vec3 \<times> vec3"
  ENU2ECEF :: "real \<Rightarrow> real \<Rightarrow> vec3 \<Rightarrow> vec3"
  OMEGA_EARTH :: real
  EarthRadius :: "real \<Rightarrow> real"
  gravity_vector :: "vec3 \<Rightarrow> vec3"
  NRLMSISE_00 :: "vec3 \<Rightarrow> real \<Rightarrow> real \<times> real \<times> real"
  interp1d_cubic :: "real list \<Rightarrow> real list \<Rightarrow> real \<Rightarrow> real"
  dragcoeff :: "real \<Rightarrow> real \<Rightarrow> real \<Rightarrow> real \<Rightarrow> real \<times> real \<times> real \<times> real"
  WRF3D :: "real list list \<Rightarrow> vec3 \<Rightarrow> hist_entry list
              \<Rightarrow> (vec3 \<times> real \<times> real) \<times> hist_entry list"
  max_height_3d :: "real list list \<Rightarrow> py_error + real"
  get_elevation :: "real \<Rightarrow> real \<Rightarrow> real option"

subsection \<open>The atmosphere sampler (df_functions.py)\<close>

text \<open>\<^verbatim>\<open>density_from_pressure\<close>, df_functions.py 23-61.\<close>

definition density_from_pressure :: "real \<Rightarrow> real \<Rightarrow> real \<Rightarrow> real" where
  "density_from_pressure temperature pressure RH =
     (let Rd = 28705 / 100;
          e_so = 61078 / 10 ^ 4;
          c0 = 99999683 / 10 ^ 8;
          c1 = - 90826951 / 10 ^ 10;
          c2 = 78736169 / 10 ^ 12;
          c3 = - 61117958 / 10 ^ 14;
          c4 = 43884187 / 10 ^ 16;
          c5 = - 29883885 / 10 ^ 18;
          c6 = 21874425 / 10 ^ 20;
          c7 = - 17892321 / 10 ^ 22;
          c8 = 11112018 / 10 ^ 24;
          c9 = - 30994571 / 10 ^ 27;
          p = (c0 + temperature * (
               c1 + temperature * (
               c2 + temperature * (
               c3 + temperature * (
               c4 + temperature * (
               c5 + temperature * (
               c6 + temperature * (
               c7 + temperature * (
               c8 + temperature * (
               c9))))))))));
          sat_vp = e_so / p ^ 8;
          Pv = sat_vp * RH;
          density = (pressure / (Rd * temperature)) * (1 - (378 / 1000 * Pv / pressure))
      in density)"

text \<open>\<^verbatim>\<open>np.argmax\<close> and \<^verbatim>\<open>np.argmin\<close>: the first index of the extreme value.\<close>

definition argmax :: "real list \<Rightarrow> nat" where
  "argmax xs = length (takeWhile (\<lambda>x. x \<noteq> Max (set xs)) xs)"

definition argmin :: "real list \<Rightarrow> nat" where
  "argmin xs = length (takeWhile (\<lambda>x. x \<noteq> Min (set xs)) xs)"

text \<open>
  \<^verbatim>\<open>AtmosphericModel\<close>, df_functions.py 66-135.  \<open>WindData\<close> is the sounding (its rows)
  or an empty list; the global \<^verbatim>\<open>WRF_history\<close> is passed in and returned extended.
  With a sounding, lines 77-78 read
  \<^verbatim>\<open>Pos_ECEF = ECEF2LLH(Pos_ECI); Pos_LLH = ECEF2LLH(Pos_ECEF)\<close>.
  The chain \<^verbatim>\<open>if h > max / elif h <= max and h >= min / elif h < min / else\<close> has a
  fourth branch that only a \<^verbatim>\<open>nan\<close> height reaches; it is not represented.
\<close>

definition AtmosphericModel ::
  "env \<Rightarrow> layer list \<Rightarrow> vec3 \<Rightarrow> real \<Rightarrow> hist_entry list
     \<Rightarrow> (vec3 \<times> real \<times> real) \<times> hist_entry list" where
  "AtmosphericModel e WindData Pos_ECI t_jd WRF_history =
     (let north_pole_ecef = (0, 0, 635675231 / 100);
          north_pole_eci = ECEF2ECI_pos e north_pole_ecef t_jd;
          earth_ang_rot = sdiv (smul (OMEGA_EARTH e) north_pole_eci) (norm_v north_pole_eci);
          v_rot = cross earth_ang_rot Pos_ECI
      in if length WindData \<noteq> 0 then
           let Pos_ECEF = ECEF2LLH e Pos_ECI;
               Pos_LLH = ECEF2LLH e Pos_ECEF;
               h = snd (snd Pos_LLH);
               hs = map Height WindData;
               (Wind', WDir', TempK', Press', RHum') =
                 (if h > Max (set hs) then
                    let i = argmax hs
                    in (Wind (WindData ! i), WDir (WindData ! i), TempK (WindData ! i),
                        Press (WindData ! i), RHum (WindData ! i))
                  else if h \<le> Max (set hs) \<and> h \<ge> Min (set hs) then
                    (interp1d_cubic e hs (map Wind WindData) h,
                     interp1d_cubic e hs (map WDir WindData) h,
                     interp1d_cubic e hs (map TempK WindData) h,
                     interp1d_cubic e hs (map Press WindData) h,
                     interp1d_cubic e hs (map RHum WindData) h)
                  else
                    let i = argmin hs
                    in (Wind (WindData ! i), WDir (WindData ! i), TempK (WindData ! i),
                        Press (WindData ! i), RHum (WindData ! i)));
               rho_a = density_from_pressure TempK' Press' RHum';
               Wind_ENU = (- (Wind' * sin (deg2rad WDir')),
                           - (Wind' * cos (deg2rad WDir')),
                           - 0);
               lat = fst Pos_LLH;
               lon = fst (snd Pos_LLH);
               Wind_ECI = vadd
                 (case Wind_ENU of (we, wn, wu) \<Rightarrow>
                    (- sin lon * we + - sin lat * cos lon * wn + cos lat * cos lon * wu,
                     cos lon * we + - sin lat * sin lon * wn + cos lat * sin lon * wu,
                     0 * we + cos lat * wn + sin lat * wu))
                 v_rot
           in ((Wind_ECI, rho_a, TempK'), WRF_history @ [(h, Wind_ENU, rho_a, TempK')])
         else
           let Pos_ECEF = ECI2ECEF_pos e Pos_ECI t_jd;
               Pos_LLH = ECEF2LLH e Pos_ECEF;
               h = snd (snd Pos_LLH);
               (TempK', Press', rho_a) = NRLMSISE_00 e Pos_LLH t_jd;
               Wind_ENU = (0, 0, 0);
               Wind_ECI = v_rot
           in ((Wind_ECI, rho_a, TempK'), WRF_history @ [(h, Wind_ENU, rho_a, TempK')]))"
subsection \<open>The dynamics function (\<^verbatim>\<open>EarthDynamics\<close>)\<close>

text \<open>
  The state \<open>X\<close> is a flat numpy array: position \<^verbatim>\<open>X[:3]\<close>, velocity \<^verbatim>\<open>X[3:6]\<close>,
  mass \<^verbatim>\<open>X[6]\<close>, bulk density \<^verbatim>\<open>X[7]\<close>, shape \<^verbatim>\<open>X[8]\<close>, mass-loss coefficient
  \<^verbatim>\<open>X[9]\<close>; the weight is kept outside (\<^verbatim>\<open>State = data0.T[:11]; W = data0.T[11]\<close>).
  With \<^verbatim>\<open>return_abs_mag\<close> the function returns a magnitude instead of a derivative.
  Float powers \<^verbatim>\<open>M**(1./3)\<close> are \<open>powr\<close>; they agree for \<open>M \<ge> 0\<close>.
\<close>

datatype dyn_out = AbsMag real | X_dot "real list"

text \<open>
  \<^verbatim>\<open>X_dot = np.zeros(X.shape); X_dot[:3] = Vel_ECI.flatten();
  X_dot[3:6] = a_tot.flatten(); X_dot[6] = dm_dt\<close>
\<close>

definition state_rate :: "real list \<Rightarrow> vec3 \<Rightarrow> vec3 \<Rightarrow> real \<Rightarrow> real list" where
  "state_rate X Vel_ECI a_tot dm_dt =
     (case (Vel_ECI, a_tot) of ((vx, vy, vz), (ax, ay, az)) \<Rightarrow>
        (replicate (length X) 0)
          [0 := vx, 1 := vy, 2 := vz, 3 := ax, 4 := ay, 5 := az, 6 := dm_dt])"

text \<open>
  DFN_DarkFlight.py 73-90: the choice of the atmosphere inside \<^verbatim>\<open>EarthDynamics\<close>.
  Above the top of the data the sampler is called with an empty list.
\<close>

definition EarthDynamics_atmosphere ::
  "env \<Rightarrow> WindData \<Rightarrow> vec3 \<Rightarrow> real \<Rightarrow> hist_entry list
     \<Rightarrow> py_error + ((vec3 \<times> real \<times> real) \<times> hist_entry list)" where
  "EarthDynamics_atmosphere e WindData Pos_ECI t_jd WRF_history =
     (let Pos_ECEF = ECI2ECEF_pos e Pos_ECI t_jd;
          Pos_LLH = ECEF2LLH e Pos_ECEF
      in case WindData of
           Table rows \<Rightarrow>
             if rows = [] then Inl ValueError
             else
               let maxwindheight = Max (set (map Height rows))
               in if snd (snd Pos_LLH) > maxwindheight
                  then Inr (AtmosphericModel e [] Pos_ECI t_jd WRF_history)
                  else Inr (AtmosphericModel e rows Pos_ECI t_jd WRF_history)
         | WindArray flds \<Rightarrow>
             (case max_height_3d e flds of
                Inl err \<Rightarrow> Inl err
              | Inr maxwindheight \<Rightarrow>
                  if snd (snd Pos_LLH) > maxwindheight
                  then Inr (AtmosphericModel e [] Pos_ECI t_jd WRF_history)
                  else
                    let ((Wind_ENU, rho_a, temp), hist) = WRF3D e flds Pos_LLH WRF_history;
                        Wind_ECEF = ENU2ECEF e (fst (snd Pos_LLH)) (fst Pos_LLH) Wind_ENU;
                        v_atm = snd (ECEF2ECI e Pos_ECEF Wind_ECEF t_jd)
                    in Inr ((v_atm, rho_a, temp), hist)))"

text \<open>\<^verbatim>\<open>EarthDynamics(t, X, WindData, t0, return_abs_mag=False)\<close>, DFN_DarkFlight.py 57-119.\<close>

definition EarthDynamics ::
  "env \<Rightarrow> real \<Rightarrow> real list \<Rightarrow> WindData \<Rightarrow> real \<Rightarrow> bool \<Rightarrow> hist_entry list
     \<Rightarrow> py_error + (dyn_out \<times> hist_entry list)" where
  "EarthDynamics e t X WindData t0 return_abs_mag WRF_history =
     (if length X < 10 then Inl IndexError
      else
        let Pos_ECI = (X ! 0, X ! 1, X ! 2);
            Vel_ECI = (X ! 3, X ! 4, X ! 5);
            M = X ! 6; rho = X ! 7; A = X ! 8; c_ml = X ! 9;
            t_jd = t0 + t / (24 * 60 * 60);
            a_grav = gravity_vector e Pos_ECI
        in case EarthDynamics_atmosphere e WindData Pos_ECI t_jd WRF_history of
             Inl err \<Rightarrow> Inl err
           | Inr ((v_atm, rho_a, temp), hist) \<Rightarrow>
               let v_rel = vsub Vel_ECI v_atm;
                   v = norm_v v_rel;
                   cd = fst (dragcoeff e v temp rho_a A);
                   a_drag = sdiv (smul (- cd * A * rho_a * v) v_rel)
                                 (2 * M powr (1 / 3) * rho powr (2 / 3));
                   a_tot = vadd a_grav a_drag;
                   dm_dt = - c_ml * A * rho_a * v ^ 3 * M powr (2 / 3) / (2 * rho powr (2 / 3))
               in if return_abs_mag then
                    (if length X \<le> 10 then Inl IndexError
                     else
                       let lum = - (X ! 10) * (v\<^sup>2 / 2 + cd / c_ml) * dm_dt * 10 ^ 7
                       in Inr (AbsMag (- (25 / 10) * log 10 (lum / (15 * 10 ^ 9))), hist))
                  else Inr (X_dot (state_rate X Vel_ECI a_tot dm_dt), hist))"

text \<open>
  DarkFlight_main.py 88-98: the choice of the atmosphere inside the lift variant of
  \<^verbatim>\<open>EarthDynamics\<close>.  A \<^verbatim>\<open>Table\<close>, empty or not, goes to
  \<^verbatim>\<open>AtmosphericModel\<close> as it is.
\<close>

definition EarthDynamics_lift_atmosphere ::
  "env \<Rightarrow> WindData \<Rightarrow> vec3 \<Rightarrow> real \<Rightarrow> hist_entry list
     \<Rightarrow> (vec3 \<times> real \<times> real) \<times> hist_entry list" where
  "EarthDynamics_lift_atmosphere e WindData Pos_ECI t_jd WRF_history =
     (case WindData of
        Table rows \<Rightarrow> AtmosphericModel e rows Pos_ECI t_jd WRF_history
      | WindArray flds \<Rightarrow>
          let Pos_ECEF = ECI2ECEF_pos e Pos_ECI t_jd;
              Pos_LLH = ECEF2LLH e Pos_ECEF;
              ((Wind_ENU, rho_a, temp), hist) = WRF3D e flds Pos_LLH WRF_history;
              Wind_ECEF = ENU2ECEF e (fst (snd Pos_LLH)) (fst Pos_LLH) Wind_ENU;
              v_atm = snd (ECEF2ECI e Pos_ECEF Wind_ECEF t_jd)
          in ((v_atm, rho_a, temp), hist))"

text \<open>
  \<^verbatim>\<open>EarthDynamics(t, X, WindData, t0, cl, return_abs_mag=False)\<close>, DarkFlight_main.py
  73-138.  The lift acceleration is always computed.
\<close>

definition EarthDynamics_lift ::
  "env \<Rightarrow> real \<Rightarrow> real list \<Rightarrow> WindData \<Rightarrow> real \<Rightarrow> real \<Rightarrow> bool \<Rightarrow> hist_entry list
     \<Rightarrow> py_error + (dyn_out \<times> hist_entry list)" where
  "EarthDynamics_lift e t X WindData t0 cl return_abs_mag WRF_history =
     (if length X < 10 then Inl IndexError
      else
        let Pos_ECI = (X ! 0, X ! 1, X ! 2);
            Vel_ECI = (X ! 3, X ! 4, X ! 5);
            M = X ! 6; rho = X ! 7; A = X ! 8; c_ml = X ! 9;
            t_jd = t0 + t / (24 * 60 * 60);
            a_grav = gravity_vector e Pos_ECI
        in case EarthDynamics_lift_atmosphere e WindData Pos_ECI t_jd WRF_history of
             ((v_atm, rho_a, temp), hist) \<Rightarrow>
               let v_rel = vsub Vel_ECI v_atm;
                   v = norm_v v_rel;
                   cd = fst (dragcoeff e v temp rho_a A);
                   a_drag = sdiv (smul (- cd * A * rho_a * v) v_rel)
                                 (2 * M powr (1 / 3) * rho powr (2 / 3));
                   n_lift = sdiv (cross a_grav v_rel) (norm_v (cross a_grav v_rel));
                   a_lift = sdiv (smul (cl * A * rho_a * v\<^sup>2) n_lift)
                                 (2 * M powr (1 / 3) * rho powr (2 / 3));
                   a_tot = vadd (vadd a_grav a_drag) a_lift;
                   dm_dt = - c_ml * A * rho_a * v ^ 3 * M powr (2 / 3) / (2 * rho powr (2 / 3))
               in if return_abs_mag then
                    (if length X \<le> 10 then Inl IndexError
                     else
                       let lum = - (X ! 10) * (v\<^sup>2 / 2 + cd / c_ml) * dm_dt * 10 ^ 7
                       in Inr (AbsMag (- (25 / 10) * log 10 (lum / (15 * 10 ^ 9))), hist))
                  else Inr (X_dot (state_rate X Vel_ECI a_tot dm_dt), hist))"
subsection \<open>One step of the integrator\<close>

text \<open>
  Modelled from the spec: the integrator is \<^verbatim>\<open>scipy.integrate.ode\<close> with
  \<^verbatim>\<open>'dopri5'\<close>, which is not under src/; section 4.E of the specification names it a
  5(4) Dormand-Prince Runge-Kutta pair.  What follows is one accepted step of size \<open>h\<close>
  of an explicit Runge-Kutta method: stage \<open>i\<close> evaluates the right-hand side at
  \<open>t + c\<^sub>i h\<close> and \<open>y + h \<Sum>\<^sub>j a\<^sub>i\<^sub>j k\<^sub>j\<close>, and the new state is
  \<open>y + h \<Sum>\<^sub>i b\<^sub>i k\<^sub>i\<close>.  The tableau (the rows \<open>(c\<^sub>i, [a\<^sub>i\<^sub>1, \<dots>])\<close> and the weights \<open>b\<close>)
  is a parameter, so what is proved of a step holds for every explicit tableau, the
  Dormand-Prince one included.  The right-hand side may fail and threads the history.
\<close>

definition list_add :: "real list \<Rightarrow> real list \<Rightarrow> real list" where
  "list_add xs ys = map (\<lambda>(x, y). x + y) (zip xs ys)"

definition list_scale :: "real \<Rightarrow> real list \<Rightarrow> real list" where
  "list_scale k xs = map (\<lambda>x. k * x) xs"

fun lincomb :: "nat \<Rightarrow> real list \<Rightarrow> real list list \<Rightarrow> real list" where
  "lincomb n (a # as) (k # ks) = list_add (list_scale a k) (lincomb n as ks)"
| "lincomb n _ _ = replicate n 0"

fun rk_stages ::
  "(real \<Rightarrow> real list \<Rightarrow> 's \<Rightarrow> py_error + (real list \<times> 's)) \<Rightarrow> real \<Rightarrow> real list \<Rightarrow> real
     \<Rightarrow> (real \<times> real list) list \<Rightarrow> real list list \<Rightarrow> 's \<Rightarrow> py_error + (real list list \<times> 's)" where
  "rk_stages f t y h [] ks s = Inr (ks, s)"
| "rk_stages f t y h ((c, as) # rows) ks s =
     (case f (t + c * h) (list_add y (list_scale h (lincomb (length y) as ks))) s of
        Inl err \<Rightarrow> Inl err
      | Inr (k, s') \<Rightarrow> rk_stages f t y h rows (ks @ [k]) s')"

definition rk_step ::
  "(real \<Rightarrow> real list \<Rightarrow> 's \<Rightarrow> py_error + (real list \<times> 's)) \<Rightarrow> real \<Rightarrow> real list \<Rightarrow> real
     \<Rightarrow> (real \<times> real list) list \<Rightarrow> real list \<Rightarrow> 's \<Rightarrow> py_error + (real list \<times> 's)" where
  "rk_step f t y h rows bs s =
     (case rk_stages f t y h rows [] s of
        Inl err \<Rightarrow> Inl err
      | Inr (ks, s') \<Rightarrow> Inr (list_add y (list_scale h (lincomb (length y) bs ks)), s'))"

text \<open>
  The right-hand side the solver is given:
  \<^verbatim>\<open>ode(EarthDynamics)\<close> with \<^verbatim>\<open>set_f_params(newWindData, t0)\<close> in DFN_DarkFlight.py,
  \<^verbatim>\<open>set_f_params(WindData, t0, c_lift)\<close> in DarkFlight_main.py; \<^verbatim>\<open>return_abs_mag\<close>
  keeps its default.
\<close>

definition solver_rhs ::
  "env \<Rightarrow> WindData \<Rightarrow> real \<Rightarrow> real \<Rightarrow> real list \<Rightarrow> hist_entry list
     \<Rightarrow> py_error + (real list \<times> hist_entry list)" where
  "solver_rhs e WindData t0 t X WRF_history =
     (case EarthDynamics e t X WindData t0 False WRF_history of
        Inl err \<Rightarrow> Inl err
      | Inr (X_dot xd, hist) \<Rightarrow> Inr (xd, hist)
      | Inr (AbsMag m, hist) \<Rightarrow> Inl TypeError)"

definition solver_rhs_lift ::
  "env \<Rightarrow> WindData \<Rightarrow> real \<Rightarrow> real \<Rightarrow> real \<Rightarrow> real list \<Rightarrow> hist_entry list
     \<Rightarrow> py_error + (real list \<times> hist_entry list)" where
  "solver_rhs_lift e WindData t0 c_lift t X WRF_history =
     (case EarthDynamics_lift e t X WindData t0 c_lift False WRF_history of
        Inl err \<Rightarrow> Inl err
      | Inr (X_dot xd, hist) \<Rightarrow> Inr (xd, hist)
      | Inr (AbsMag m, hist) \<Rightarrow> Inl TypeError)"
subsection \<open>A concrete environment for evaluation\<close>

text \<open>
  The theorems below hold for every value of the record \<open>env\<close>.  To evaluate the
  definitions at concrete inputs the imported functions need values too: a spherical
  Earth of radius 6371 km whose inertial and Earth-fixed frames coincide at the epoch,
  central gravity with \<open>\<mu> = 3.986005e14\<close>, a constant reference atmosphere, a
  constant drag coefficient, a straight line through the end nodes for the
  interpolation, a forecast sampler returning sea-level air, and an SRTM cache whose
  tiles are all missing.
\<close>

definition arctan2 :: "real \<Rightarrow> real \<Rightarrow> real" where
  "arctan2 y x =
     (if x > 0 then arctan (y / x)
      else if x < 0 \<and> y \<ge> 0 then arctan (y / x) + pi
      else if x < 0 then arctan (y / x) - pi
      else if y > 0 then pi / 2
      else if y < 0 then - pi / 2
      else 0)"

definition sphere_env :: env where
  "sphere_env =
     \<lparr>ECEF2LLH = (\<lambda>p. case p of (x, y, z) \<Rightarrow>
                   (arcsin (z / norm_v p), arctan2 y x, norm_v p - 6371000)),
      ECI2ECEF_pos = (\<lambda>p t. p),
      ECEF2ECI_pos = (\<lambda>p t. p),
      ECEF2ECI = (\<lambda>p v t. (p, vadd v (cross (0, 0, 7292115 / 10 ^ 11) p))),
      ENU2ECEF = (\<lambda>lon lat w. case w of (we, wn, wu) \<Rightarrow>
                   (- sin lon * we - sin lat * cos lon * wn + cos lat * cos lon * wu,
                    cos lon * we - sin lat * sin lon * wn + cos lat * sin lon * wu,
                    cos lat * wn + sin lat * wu)),
      OMEGA_EARTH = 7292115 / 10 ^ 11,
      EarthRadius = (\<lambda>lat. 6371000),
      gravity_vector = (\<lambda>p. smul (- (3986005 * 10 ^ 8) / norm_v p ^ 3) p),
      NRLMSISE_00 = (\<lambda>llh t. (250, 100, 1 / 1000)),
      interp1d_cubic = (\<lambda>xs ys h.
                   ys ! 0 + (h - xs ! 0) * (last ys - ys ! 0) / (last xs - xs ! 0)),
      dragcoeff = (\<lambda>v temp rho_a A. (1, 0, 0, 0)),
      WRF3D = (\<lambda>flds llh hist.
                   (((0, 0, 0), 1225 / 1000, 288),
                    hist @ [(snd (snd llh), (0, 0, 0), 1225 / 1000, 288)])),
      max_height_3d = (\<lambda>flds. Inl ValueError),
      get_elevation = (\<lambda>lat lon. None)\<rparr>"

text \<open>
  The Dormand-Prince tableau (nodes with the coefficients of each stage, and the
  fifth-order weights), for concrete steps of \<open>rk_step\<close>.
\<close>

definition dopri5_rows :: "(real \<times> real list) list" where
  "dopri5_rows =
     [(0, []),
      (1 / 5, [1 / 5]),
      (3 / 10, [3 / 40, 9 / 40]),
      (4 / 5, [44 / 45, - 56 / 15, 32 / 9]),
      (8 / 9, [19372 / 6561, - 25360 / 2187, 64448 / 6561, - 212 / 729]),
      (1, [9017 / 3168, - 355 / 33, 46732 / 5247, 49 / 176, - 5103 / 18656]),
      (1, [35 / 384, 0, 500 / 1113, 125 / 192, - 2187 / 6784, 11 / 84])]"

definition dopri5_b :: "real list" where
  "dopri5_b = [35 / 384, 0, 500 / 1113, 125 / 192, - 2187 / 6784, 11 / 84, 0]"

text \<open>A two-layer sounding from the ground to 30 km, and a 1 kg stony sphere at 40 km.\<close>

definition sounding0 :: "layer list" where
  "sounding0 =
     [\<lparr>Height = 0, TempK = 288, Press = 101325, RHum = 1 / 2, Wind = 5, WDir = 0\<rparr>,
      \<lparr>Height = 30000, TempK = 226, Press = 1200, RHum = 0, Wind = 20, WDir = 0\<rparr>]"

definition state0 :: "real list" where
  "state0 = [6411000, 0, 0, - 3000, 0, 0, 1, 3500, 121 / 100, 84 / 10 ^ 9]"

subsection \<open>Propagation to the ground (\<^verbatim>\<open>Propagate\<close>)\<close>

text \<open>
  \<^verbatim>\<open>numpy.linalg.norm\<close> of a slice of any length: the root of the sum of squares,
  0 for an empty slice.  \<^verbatim>\<open>norm(X[:3])\<close> is \<open>norm_l (take 3 X)\<close>.
\<close>

definition norm_l :: "real list \<Rightarrow> real" where
  "norm_l xs = sqrt (sum_list (map (\<lambda>x. x\<^sup>2) xs))"

text \<open>
  \<^verbatim>\<open>np.vstack((X[:3]))\<close> handed to one of the imported geodesy functions.  Those
  work on columns of three components; a shorter slice does not fit their matrices.
\<close>

definition column3 :: "real list \<Rightarrow> py_error + vec3" where
  "column3 X = (if length X < 3 then Inl ValueError else Inr (X ! 0, X ! 1, X ! 2))"

text \<open>
  The ground height.  In DFN_DarkFlight.py \<^verbatim>\<open>h_ground\<close> is a string of the command
  line: \<^verbatim>\<open>'a'\<close> asks for the SRTM elevation below the particle (0 where the tile has
  a void), anything else goes through \<^verbatim>\<open>float(h_ground)\<close>, which raises on a string
  that is not a number.  Lines 448-455 and again 484-490.
\<close>

datatype h_ground_arg = Ground_a | Ground_float real | Ground_other

definition h_gnd :: "env \<Rightarrow> h_ground_arg \<Rightarrow> real \<Rightarrow> real \<Rightarrow> py_error + real" where
  "h_gnd e h_ground lt lon =
     (case h_ground of
        Ground_a \<Rightarrow>
          (case get_elevation e (rad2deg lt) (rad2deg lon) of
             None \<Rightarrow> Inr 0
           | Some h \<Rightarrow> Inr h)
      | Ground_float h \<Rightarrow> Inr h
      | Ground_other \<Rightarrow> Inl ValueError)"

text \<open>
  The two lists \<^verbatim>\<open>state, T_rel = [], []\<close> that the observer extends: the recorded
  samples and their times in seconds from \<open>t0\<close>.
\<close>

type_synonym recorded = "real list list \<times> real list"

text \<open>
  \<^verbatim>\<open>solout\<close>, DFN_DarkFlight.py 442-463.  The first statement appends the sample;
  the tests come after it.  The return value is \<open>-1\<close> to end the integration and
  \<open>0\<close> to continue.
\<close>

definition solout ::
  "env \<Rightarrow> h_ground_arg \<Rightarrow> real \<Rightarrow> real \<Rightarrow> real list \<Rightarrow> recorded \<Rightarrow> py_error + (int \<times> recorded)" where
  "solout e h_ground t0 t X rec =
     (let rec' = (fst rec @ [X], snd rec @ [t])
      in case column3 X of
           Inl err \<Rightarrow> Inl err
         | Inr Pos_ECI \<Rightarrow>
             let Pos_ECF = ECI2ECEF_pos e Pos_ECI (t0 + t / (24 * 60 * 60));
                 (lt, lon, ht) = ECEF2LLH e Pos_ECF;
                 R_sealevel = EarthRadius e lt
             in case h_gnd e h_ground lt lon of
                  Inl err \<Rightarrow> Inl err
                | Inr hg \<Rightarrow>
                    let r_end = R_sealevel + hg
                    in if norm_l (take 3 X) < r_end then Inr (- 1, rec')
                       else if length X \<le> 6 then Inl IndexError
                       else if X ! 6 < 1 / 1000 then Inr (- 1, rec')
                       else Inr (0, rec'))"

text \<open>
  \<^verbatim>\<open>solout\<close>, DarkFlight_main.py 248-261: \<^verbatim>\<open>r_end\<close> is fixed before the
  integration (lines 244-245) and \<^verbatim>\<open>h_ground\<close> is a float.
\<close>

definition solout_lift ::
  "real \<Rightarrow> real \<Rightarrow> real list \<Rightarrow> recorded \<Rightarrow> py_error + (int \<times> recorded)" where
  "solout_lift r_end t X rec =
     (let rec' = (fst rec @ [X], snd rec @ [t])
      in if norm_l (take 3 X) < r_end then Inr (- 1, rec')
         else if length X \<le> 6 then Inl IndexError
         else if X ! 6 < 1 / 1000 then Inr (- 1, rec')
         else if X ! 6 < 0 then Inr (- 1, rec')
         else Inr (0, rec'))"

text \<open>
  Modelled from the spec: \<^verbatim>\<open>solver.integrate(t_max)\<close> with \<^verbatim>\<open>t_max = np.inf\<close> runs
  inside \<^verbatim>\<open>scipy\<close>.  Section 4.E of the specification: after each accepted step the
  observer receives the pair (t, state) and returns a command, continue or terminate.
  The observer is called on the initial value first.  The step-size control that
  turns the right-hand side into the next accepted sample is the parameter \<open>step\<close>
  (it may fail, when the right-hand side does, and it threads the history);
  \<open>nsteps\<close> is the solver's bound on the number of steps of one call, 500 by default
  and 1000 in DarkFlight_main.py, after which \<^verbatim>\<open>integrate\<close> returns with a warning.
\<close>

fun integrate ::
  "(real \<times> real list \<Rightarrow> 's \<Rightarrow> py_error + ((real \<times> real list) \<times> 's))
     \<Rightarrow> (real \<Rightarrow> real list \<Rightarrow> recorded \<Rightarrow> py_error + (int \<times> recorded))
     \<Rightarrow> nat \<Rightarrow> real \<times> real list \<Rightarrow> 's \<Rightarrow> recorded \<Rightarrow> py_error + ('s \<times> recorded)" where
  "integrate step observer 0 (t, X) s rec =
     (case observer t X rec of
        Inl err \<Rightarrow> Inl err
      | Inr (irtrn, rec') \<Rightarrow> Inr (s, rec'))"
| "integrate step observer (Suc n) (t, X) s rec =
     (case observer t X rec of
        Inl err \<Rightarrow> Inl err
      | Inr (irtrn, rec') \<Rightarrow>
          if irtrn < 0 then Inr (s, rec')
          else (case step (t, X) s of
                  Inl err \<Rightarrow> Inl err
                | Inr (tX', s') \<Rightarrow> integrate step observer n tX' s' rec'))"

text \<open>
  What \<^verbatim>\<open>Propagate\<close> returns when its arithmetic stays finite: the times
  \<^verbatim>\<open>time_jd\<close> and the samples, one list of ten numbers per sample (the columns of
  \<^verbatim>\<open>X_all\<close>; the dictionary's entries \<^verbatim>\<open>pos_eci\<close>, \<^verbatim>\<open>vel_eci\<close>, \<^verbatim>\<open>mass\<close>, \<^verbatim>\<open>rho\<close>,
  \<^verbatim>\<open>shape\<close>, \<^verbatim>\<open>c_ml\<close> are its rows 0-2, 3-5, 6, 7, 8, 9).  A division by zero
  on numpy floats raises nothing and gives \<^verbatim>\<open>inf\<close> or \<^verbatim>\<open>nan\<close>, which the reals
  do not have: the fraction is then \<open>None\<close>, and a trajectory whose last sample was
  computed from it is \<open>Not_finite\<close>.
\<close>

datatype 'a np_value = Finite 'a | Not_finite

text \<open>
  \<^verbatim>\<open>X_all[:,-2:-1] + fraction * (X_all[:,-1:] - X_all[:,-2:-1])\<close>, component by
  component.
\<close>

definition interpolate :: "real \<Rightarrow> real list \<Rightarrow> real list \<Rightarrow> real list" where
  "interpolate f prev lst = map (\<lambda>(p, l). p + f * (l - p)) (zip prev lst)"

text \<open>
  \<^verbatim>\<open>norm(X_all[:3,-2:-1])\<close>: the slice \<^verbatim>\<open>-2:-1\<close> of the columns is the sample before
  the last, and it is empty when there is one sample only.
\<close>

definition prev_position :: "real list list \<Rightarrow> real list" where
  "prev_position X_all =
     (if length X_all > 1 then take 3 (X_all ! (length X_all - 2)) else [])"

definition fraction_of :: "real list list \<Rightarrow> real \<Rightarrow> real option" where
  "fraction_of X_all r_end =
     (if norm_l (prev_position X_all) - norm_l (take 3 (last X_all)) = 0 then None
      else Some ((norm_l (prev_position X_all) - r_end)
                   / (norm_l (prev_position X_all) - norm_l (take 3 (last X_all)))))"

text \<open>
  \<^verbatim>\<open>X_all[:,-1:] = ...; T[-1] = T[-2] + fraction * (T[-1] - T[-2])\<close> under
  \<^verbatim>\<open>if len(X_all[0]) > 1\<close>, and the rows read for the dictionary
  (\<^verbatim>\<open>c_ml = X_all[9]\<close> needs ten rows).
\<close>

definition backtracked ::
  "real list \<Rightarrow> real list list \<Rightarrow> real option
     \<Rightarrow> py_error + (real list \<times> real list list) np_value" where
  "backtracked T X_all fraction =
     (if length X_all > 1 \<and> length T < 2 then Inl IndexError
      else if length (hd X_all) < 10 then Inl IndexError
      else if length X_all > 1 then
        (case fraction of
           None \<Rightarrow> Inr Not_finite
         | Some f \<Rightarrow>
             Inr (Finite
               (T[length T - 1 := T ! (length T - 2) + f * (last T - T ! (length T - 2))],
                X_all[length X_all - 1 :=
                        interpolate f (X_all ! (length X_all - 2)) (last X_all)])))
      else Inr (Finite (T, X_all)))"

text \<open>
  DFN_DarkFlight.py 475-500, the end of \<^verbatim>\<open>Propagate\<close>.  \<^verbatim>\<open>np.array(state).T\<close>
  needs samples of one length, and \<^verbatim>\<open>X_all[:3,-1]\<close> needs a sample.
\<close>

definition Propagate_backtrack ::
  "env \<Rightarrow> h_ground_arg \<Rightarrow> real \<Rightarrow> recorded
     \<Rightarrow> py_error + (real list \<times> real list list) np_value" where
  "Propagate_backtrack e h_ground t0 rec =
     (case rec of (state, T_rel) \<Rightarrow>
        let T = map (\<lambda>t. t / (24 * 60 * 60) + t0) T_rel;
            X_all = state
        in if \<not> list_all (\<lambda>x. length x = length (hd state)) state then Inl ValueError
           else if X_all = [] \<or> T = [] then Inl IndexError
           else case column3 (last X_all) of
                  Inl err \<Rightarrow> Inl err
                | Inr Pos_ECI_final \<Rightarrow>
                    let Pos_ECF_final = ECI2ECEF_pos e Pos_ECI_final (last T);
                        (lt, lon, ht) = ECEF2LLH e Pos_ECF_final
                    in case h_gnd e h_ground lt lon of
                         Inl err \<Rightarrow> Inl err
                       | Inr hg \<Rightarrow>
                           let r_end = EarthRadius e lt + hg;
                               fraction = fraction_of X_all r_end
                           in backtracked T X_all fraction)"

text \<open>
  DarkFlight_main.py 273-289: the latitude comes from \<^verbatim>\<open>ECEF2LLH\<close> applied to the
  inertial position, and the fraction is returned with the trajectory.
\<close>

definition Propagate_lift_backtrack ::
  "env \<Rightarrow> real \<Rightarrow> real \<Rightarrow> recorded
     \<Rightarrow> py_error + ((real list \<times> real list list) np_value \<times> real option)" where
  "Propagate_lift_backtrack e h_ground t0 rec =
     (case rec of (state, T_rel) \<Rightarrow>
        let T = map (\<lambda>t. t / (24 * 60 * 60) + t0) T_rel;
            X_all = state
        in if \<not> list_all (\<lambda>x. length x = length (hd state)) state then Inl ValueError
           else if X_all = [] then Inl IndexError
           else case column3 (last X_all) of
                  Inl err \<Rightarrow> Inl err
                | Inr Pos_ECI_final \<Rightarrow>
                    let r_end = EarthRadius e (fst (ECEF2LLH e Pos_ECI_final)) + h_ground;
                        fraction = fraction_of X_all r_end
                    in case backtracked T X_all fraction of
                         Inl err \<Rightarrow> Inl err
                       | Inr r \<Rightarrow> Inr (r, fraction))"

text \<open>
  \<^verbatim>\<open>Propagate\<close>, DFN_DarkFlight.py 408-500.  \<^verbatim>\<open>state0\<close> is the column
  \<open>(t0, position, velocity, mass, rho, shape, c_ml)\<close>; the arguments are
  \<^verbatim>\<open>[WindData, h_ground, windspd_err, winddir_err, mc]\<close>.  \<open>accept\<close> is the solver's
  step-size control, given the right-hand side it integrates.
\<close>

definition Propagate ::
  "env
     \<Rightarrow> ((real \<Rightarrow> real list \<Rightarrow> hist_entry list \<Rightarrow> py_error + (real list \<times> hist_entry list))
          \<Rightarrow> real \<times> real list \<Rightarrow> hist_entry list
          \<Rightarrow> py_error + ((real \<times> real list) \<times> hist_entry list))
     \<Rightarrow> nat \<Rightarrow> real list \<Rightarrow> WindData \<times> h_ground_arg \<times> real \<times> real \<times> int \<Rightarrow> rng
     \<Rightarrow> hist_entry list
     \<Rightarrow> py_error + ((real list \<times> real list list) np_value \<times> rng \<times> hist_entry list)" where
  "Propagate e accept nsteps state_0 args g WRF_history =
     (case args of (WindData, h_ground, windspd_err, winddir_err, mc) \<Rightarrow>
        if state_0 = [] then Inl IndexError
        else
          let t0 = hd state_0;
              X = tl state_0
          in case Propagate_newWindData WindData windspd_err winddir_err mc g of
               Inl err \<Rightarrow> Inl err
             | Inr (newWindData, g') \<Rightarrow>
                 (case integrate (accept (solver_rhs e newWindData t0)) (solout e h_ground t0)
                         nsteps (0, X) WRF_history ([], []) of
                    Inl err \<Rightarrow> Inl err
                  | Inr (hist, rec) \<Rightarrow>
                      (case Propagate_backtrack e h_ground t0 rec of
                         Inl err \<Rightarrow> Inl err
                       | Inr r \<Rightarrow> Inr (r, g', hist))))"

text \<open>
  \<^verbatim>\<open>Propagate\<close>, DarkFlight_main.py 233-289, with the arguments
  \<^verbatim>\<open>[WindData, h_ground, c_lift]\<close>.
\<close>

definition Propagate_lift ::
  "env
     \<Rightarrow> ((real \<Rightarrow> real list \<Rightarrow> hist_entry list \<Rightarrow> py_error + (real list \<times> hist_entry list))
          \<Rightarrow> real \<times> real list \<Rightarrow> hist_entry list
          \<Rightarrow> py_error + ((real \<times> real list) \<times> hist_entry list))
     \<Rightarrow> nat \<Rightarrow> real list \<Rightarrow> WindData \<times> real \<times> real \<Rightarrow> hist_entry list
     \<Rightarrow> py_error
         + (((real list \<times> real list list) np_value \<times> real option) \<times> hist_entry list)" where
  "Propagate_lift e accept nsteps state_0 args WRF_history =
     (case args of (WindData, h_ground, c_lift) \<Rightarrow>
        if state_0 = [] then Inl IndexError
        else
          let t0 = hd state_0;
              X = tl state_0
          in case column3 X of
               Inl err \<Rightarrow> Inl err
             | Inr Pos_ECI \<Rightarrow>
                 let R_sealevel = EarthRadius e (fst (ECEF2LLH e Pos_ECI));
                     r_end = R_sealevel + h_ground
                 in case integrate (accept (solver_rhs_lift e WindData t0 c_lift))
                           (solout_lift r_end) nsteps (0, X) WRF_history ([], []) of
                      Inl err \<Rightarrow> Inl err
                    | Inr (hist, rec) \<Rightarrow>
                        (case Propagate_lift_backtrack e h_ground t0 rec of
                           Inl err \<Rightarrow> Inl err
                         | Inr r \<Rightarrow> Inr (r, hist)))"

text \<open>
  Accepted steps for evaluation: a step of one second along the first axis with a
  fixed change of position and mass, and a step that moves the position to a given
  point.
\<close>

definition falling_step ::
  "real \<Rightarrow> real
     \<Rightarrow> (real \<Rightarrow> real list \<Rightarrow> hist_entry list \<Rightarrow> py_error + (real list \<times> hist_entry list))
     \<Rightarrow> real \<times> real list \<Rightarrow> hist_entry list
     \<Rightarrow> py_error + ((real \<times> real list) \<times> hist_entry list)" where
  "falling_step dx dm f tX hist =
     Inr ((fst tX + 1, (snd tX)[0 := snd tX ! 0 + dx, 6 := snd tX ! 6 + dm]), hist)"


text \<open>
  Initial states for evaluation on the sphere: a 1 kg stone one kilometre below the
  surface, a stone of 1.5 g at 40 km, and stones of 1 kg at 100 m and at 3 km.
\<close>

definition X_below :: "real list" where
  "X_below = [6370000, 0, 0, 0, 0, 0, 1, 3500, 121 / 100, 84 / 10 ^ 9]"




section \<open>Properties\<close>

subsection \<open>Partition of the ensemble\<close>

lemma sum_list_replicate_nat: "sum_list (replicate m (c::nat)) = m * c"
  by (induction m) simp_all

lemma sum_list_map_Suc: "sum_list (map (\<lambda>x. x + 1) (xs::nat list)) = sum_list xs + length xs"
  by (induction xs) simp_all

lemma main_partition_sum:
  assumes "0 < sz"
  shows "sum_list (map (\<lambda>x. x + 1) (take (N mod sz) (replicate sz (N div sz)))
           @ drop (N mod sz) (replicate sz (N div sz))) = N"
proof -
  have k: "N mod sz \<le> sz" using assms by (simp add: less_imp_le)
  have "sum_list (map (\<lambda>x. x + 1) (take (N mod sz) (replicate sz (N div sz)))
           @ drop (N mod sz) (replicate sz (N div sz)))
        = (N mod sz) * (N div sz) + N mod sz + (sz - N mod sz) * (N div sz)"
    using k by (simp add: sum_list_map_Suc sum_list_replicate_nat min_def)
  also have "\<dots> = sz * (N div sz) + N mod sz"
    using k by (simp add: algebra_simps flip: add_mult_distrib)
  also have "\<dots> = N" by simp
  finally show ?thesis .
qed

lemma floor_nat_div: "nat \<lfloor>real N / real sz\<rfloor> = N div sz"
  by (simp add: floor_divide_of_nat_eq)

lemma ceiling_nat_div:
  assumes "0 < sz"
  shows "nat \<lceil>real N / real sz\<rceil> = (if N mod sz = 0 then N div sz else N div sz + 1)"
proof (cases "N mod sz = 0")
  case True
  then have "real N / real sz = real (N div sz)"
    by (simp add: real_of_nat_div mod_eq_0_iff_dvd)
  then show ?thesis using True by simp
next
  case False
  have lo: "real (N div sz) < real N / real sz"
  proof -
    have "N div sz * sz < N"
      using False assms by (metis div_mult_mod_eq less_add_same_cancel1 neq0_conv)
    then have "real (N div sz) * real sz < real N"
      by (metis of_nat_less_iff of_nat_mult)
    then show ?thesis using assms by (simp add: pos_less_divide_eq)
  qed
  have hi: "real N / real sz \<le> real (N div sz) + 1"
  proof -
    have "N < (N div sz + 1) * sz"
      using assms by (metis Suc_eq_plus1 dividend_less_div_times mult.commute mult_Suc)
    then have "real N < (real (N div sz) + 1) * real sz"
      by (metis of_nat_less_iff of_nat_mult of_nat_add of_nat_1)
    then show ?thesis using assms by (simp add: pos_divide_le_eq less_imp_le)
  qed
  have "\<lceil>real N / real sz\<rceil> = int (N div sz) + 1"
    using lo hi by (intro ceiling_unique) simp_all
  then show ?thesis using False by simp
qed

text \<open>
  C9.  For every ensemble size \<open>N \<ge> 1\<close> and worker count \<open>W \<ge> 1\<close> the partition
  computed in \<^verbatim>\<open>__main__\<close> has one entry per worker, each entry is
  \<open>\<lfloor>N/W\<rfloor>\<close> or \<open>\<lceil>N/W\<rceil>\<close>, the entries sum to \<open>N\<close>, and a worker whose
  entry is zero exits before the scatter and contributes no rows.
\<close>

theorem partition_blocks:
  assumes "1 \<le> N" and "1 \<le> W"
  shows "\<exists>n. main_partition N W = Inr n \<and> length n = W
           \<and> (\<forall>r < W. n ! r = nat \<lfloor>real N / real W\<rfloor> \<or> n ! r = nat \<lceil>real N / real W\<rceil>)
           \<and> sum_list n = N
           \<and> (\<forall>r < W. n ! r = 0 \<longrightarrow>
                 main_rank n r DATA0 = Inr Terminated
               \<and> rows_contributed (main_rank n r DATA0) = 0)"
proof -
  define n where "n = map (\<lambda>x. x + 1) (take (N mod W) (replicate W (N div W)))
              @ drop (N mod W) (replicate W (N div W))"
  have W: "0 < W" using assms by simp
  have k: "N mod W \<le> W" using W by (simp add: less_imp_le)
  have eq: "main_partition N W = Inr n"
    using W by (simp add: main_partition_def Let_def n_def)
  have len: "length n = W" using k by (simp add: n_def)
  have entry: "n ! r = (if r < N mod W then N div W + 1 else N div W)" if "r < W" for r
    using that k by (simp add: nth_append min_def n_def)
  have vals: "n ! r = nat \<lfloor>real N / real W\<rfloor> \<or> n ! r = nat \<lceil>real N / real W\<rceil>"
    if "r < W" for r
  proof (cases "r < N mod W")
    case True
    then have "N mod W \<noteq> 0" by simp
    then show ?thesis using entry [OF that] True ceiling_nat_div [OF W, of N] by simp
  next
    case False
    then show ?thesis using entry [OF that] floor_nat_div [of N W] by simp
  qed
  have total: "sum_list n = N" unfolding n_def by (rule main_partition_sum [OF W])
  have idle: "main_rank n r DATA0 = Inr Terminated
              \<and> rows_contributed (main_rank n r DATA0) = 0"
    if "r < W" "n ! r = 0" for r
    using that len by (simp add: main_rank_def)
  show ?thesis
    apply (rule exI [of _ n])
    using eq len vals total idle by simp
qed

theorem partition_blocks_witness:
  "main_partition 2 4 = Inr [1, 1, 0, 0]
   \<and> main_rank [1, 1, 0, 0] 2 [''a'', ''b''] = Inr Terminated
   \<and> main_rank [1, 1, 0, 0] 1 [''a'', ''b''] = Inr (Received [''b''])
   \<and> main_partition 10 4 = Inr [3, 3, 2, 2]
   \<and> (\<exists>n. main_partition 10 4 = Inr n \<and> length n = 4 \<and> sum_list n = 10)"
proof -
  have a: "(1::nat) \<le> 10" and b: "(1::nat) \<le> 4" by simp_all
  have ex: "\<exists>n. main_partition 10 4 = Inr n \<and> length n = 4 \<and> sum_list n = 10"
    using partition_blocks [OF a b, of "[]"] by blast
  have p1: "main_partition 10 4 = Inr [3, 3, 2, 2]" by code_simp
  have p2: "main_partition 2 4 = Inr [1, 1, 0, 0]" by code_simp
  have t: "main_rank [1, 1, 0, 0] 2 [''a'', ''b''] = Inr Terminated"
    by (simp add: main_rank_def)
  have u: "main_rank [1, 1, 0, 0] 1 [''a'', ''b''] = Inr (Received [''b''])"
    by (simp add: main_rank_def displacements_def upt_conv_Cons)
  show ?thesis using ex p1 p2 t u by (intro conjI)
qed

subsection \<open>Mass-loss coefficient\<close>

lemma mask_assign_length:
  "length msk = length c \<Longrightarrow> length (mask_assign msk v c) = length c"
  by (simp add: mask_assign_def)

lemma mask_assign_nth:
  "length msk = length c \<Longrightarrow> i < length c
    \<Longrightarrow> mask_assign msk v c ! i = (if msk ! i then v else c ! i)"
  by (simp add: mask_assign_def)

lemma banded_c_ml_nth:
  fixes rho :: "real list"
  assumes "i < length rho"
  shows "mask_assign (map (\<lambda>r. r \<le> 1500) rho) d
          (mask_assign (map (\<lambda>r. r > 1500 \<and> r \<le> 2500) rho) c
            (mask_assign (map (\<lambda>r. r > 2500 \<and> r \<le> 5000) rho) b
              (mask_assign (map (\<lambda>r. r > 5000) rho) a (replicate (length rho) 0)))) ! i
         = (if rho ! i > 5000 then a else if rho ! i > 2500 then b
            else if rho ! i > 1500 then c else d)"
  using assms by (auto simp add: mask_assign_nth mask_assign_length)

text \<open>
  C5 (amended).  In DFN_DarkFlight.py the mass-loss coefficient of every particle is
  \<open>\<sigma>\<close> times \<open>Cd_hyp(A)\<close> with \<open>\<sigma>\<close> taken from the band of its bulk density
  (0.07e-6 above 5000, 0.014e-6 in (2500, 5000], 0.042e-6 in (1500, 2500], 0.1e-6 up
  to 1500); in DarkFlight_main.py it is 0.042e-6 times \<open>Cd_hyp(A)\<close> for every bulk
  density.
\<close>

theorem c_ml_by_variant:
  assumes "shape_factor shape = Inr A"
  shows "(\<exists>c_ml. InitialiseParams cd_hypersonic rho shape = Inr (A, c_ml)
            \<and> length c_ml = length rho
            \<and> (\<forall>i < length rho. c_ml ! i = sigma_band (rho ! i) * cd_hypersonic A))
         \<and> InitialiseParams_lift cd_hypersonic rho A = (A, 42 / 10 ^ 9 * cd_hypersonic A)"
proof -
  let ?cd = "cd_hypersonic A"
  let ?c = "mask_assign (map (\<lambda>r. r \<le> 1500) rho) (1 / 10 ^ 7 * ?cd)
          (mask_assign (map (\<lambda>r. r > 1500 \<and> r \<le> 2500) rho) (42 / 10 ^ 9 * ?cd)
            (mask_assign (map (\<lambda>r. r > 2500 \<and> r \<le> 5000) rho) (14 / 10 ^ 9 * ?cd)
              (mask_assign (map (\<lambda>r. r > 5000) rho) (7 / 10 ^ 8 * ?cd)
                 (replicate (length rho) 0))))"
  have eq: "InitialiseParams cd_hypersonic rho shape = Inr (A, ?c)"
    using assms by (simp add: InitialiseParams_def Let_def)
  have len: "length ?c = length rho"
    by (simp add: mask_assign_length)
  have val: "?c ! i = sigma_band (rho ! i) * ?cd" if "i < length rho" for i
    unfolding banded_c_ml_nth [OF that] by (simp add: sigma_band_def)
  have lift: "InitialiseParams_lift cd_hypersonic rho A = (A, 42 / 10 ^ 9 * ?cd)"
    by (simp add: InitialiseParams_lift_def Let_def)
  show ?thesis using eq len val lift by blast
qed

theorem c_ml_by_variant_witness:
  "shape_factor Shape_s = Inr (121 / 100)
   \<and> InitialiseParams (\<lambda>A. 2) [6000, 3500, 2000, 1000] Shape_s
       = Inr (121 / 100, [14 / 10 ^ 8, 28 / 10 ^ 9, 84 / 10 ^ 9, 2 / 10 ^ 7])
   \<and> InitialiseParams_lift (\<lambda>A. 2) [3500] (121 / 100) = (121 / 100, 42 / 10 ^ 9 * 2)"
proof -
  have s: "shape_factor Shape_s = Inr (121 / 100)" by simp
  have l: "InitialiseParams_lift (\<lambda>A. 2) [3500] (121 / 100) = (121 / 100, 42 / 10 ^ 9 * 2)"
    using c_ml_by_variant [OF s, of "\<lambda>A. 2" "[3500]"] by simp
  have d: "InitialiseParams (\<lambda>A. 2) [6000, 3500, 2000, 1000] Shape_s
       = Inr (121 / 100, [14 / 10 ^ 8, 28 / 10 ^ 9, 84 / 10 ^ 9, 2 / 10 ^ 7])"
    by (simp add: InitialiseParams_def Let_def mask_assign_def)
  show ?thesis using s l d by (intro conjI)
qed

text \<open>
  The claim as stated fails in DarkFlight_main.py: at bulk density 3500 the band gives
  0.014e-6, the code assigns 0.042e-6 times \<open>Cd_hyp\<close> (here \<open>Cd_hyp = 2\<close>).
\<close>

theorem c_ml_lift_counterexample:
  "snd (InitialiseParams_lift (\<lambda>A. 2) [3500] (121 / 100)) = 84 / 10 ^ 9
   \<and> sigma_band 3500 * 2 = 28 / 10 ^ 9
   \<and> snd (InitialiseParams_lift (\<lambda>A. 2) [3500] (121 / 100)) \<noteq> sigma_band 3500 * 2"
  by (simp add: InitialiseParams_lift_def sigma_band_def Let_def)

subsection \<open>Monte-Carlo perturbation of the wind\<close>










text \<open>
  The direction draw of a sounding is taken from \<open>[-windspd_err, winddir_err)\<close>: with
  the values \<^verbatim>\<open>__main__\<close> passes (\<open>winddir_err = 0\<close>, \<open>wind_err = 2\<close>) and a draw
  at the lower end, a direction of 90 degrees becomes 88.
\<close>

lemma wdir_draw_lower_bound:
  "Propagate_newWindData
      (Table [\<lparr>Height = 0, TempK = 288, Press = 101325, RHum = 1 / 2, Wind = 5, WDir = 90\<rparr>])
      2 0 1 (\<lambda>i. 0, 0)
    = Inr (Table [\<lparr>Height = 0, TempK = 288, Press = 101325, RHum = 1 / 2, Wind = 3,
                   WDir = 88\<rparr>], (\<lambda>i. 0, 2))"
proof -
  have fl: "\<lfloor>(11::real) / 45\<rfloor> = 0" by simp
  show ?thesis
    by (simp add: Propagate_newWindData_def uniform_def np_mod_def fl)
qed

subsection \<open>Runge-Kutta steps keep what the right-hand side does not move\<close>

lemma list_add_length: "length ys = length xs \<Longrightarrow> length (list_add xs ys) = length xs"
  by (simp add: list_add_def)

lemma list_add_nth:
  "length ys = length xs \<Longrightarrow> j < length xs \<Longrightarrow> list_add xs ys ! j = xs ! j + ys ! j"
  by (simp add: list_add_def)

lemma list_scale_length: "length (list_scale k xs) = length xs"
  by (simp add: list_scale_def)

lemma list_scale_nth: "j < length xs \<Longrightarrow> list_scale k xs ! j = k * xs ! j"
  by (simp add: list_scale_def)

lemma lincomb_zero:
  assumes "\<forall>k \<in> set ks. length k = n \<and> (\<forall>j \<in> J. k ! j = 0)" and "\<forall>j \<in> J. j < n"
  shows "length (lincomb n as ks) = n \<and> (\<forall>j \<in> J. lincomb n as ks ! j = 0)"
  using assms
proof (induction n as ks rule: lincomb.induct)
  case (1 n a as k ks)
  then have ih: "length (lincomb n as ks) = n" "\<forall>j \<in> J. lincomb n as ks ! j = 0"
    by simp_all
  have k: "length k = n" "\<forall>j \<in> J. k ! j = 0" using "1.prems" by simp_all
  show ?case
    using ih k "1.prems"(2)
    by (simp add: list_add_length list_add_nth list_scale_length list_scale_nth)
qed simp_all

lemma stage_input:
  assumes "length d = length y"
  shows "length (list_add y (list_scale h d)) = length y"
    and "j < length y \<Longrightarrow> d ! j = 0 \<Longrightarrow> list_add y (list_scale h d) ! j = y ! j"
  using assms by (simp_all add: list_add_length list_add_nth list_scale_length list_scale_nth)

lemma rk_stages_zero:
  assumes F: "\<And>t z s k s'. Q z \<Longrightarrow> f t z s = Inr (k, s')
                \<Longrightarrow> length k = length z \<and> (\<forall>j \<in> J. k ! j = 0)"
    and Qinv: "\<And>z. length z = length y \<Longrightarrow> (\<forall>j \<in> J. z ! j = y ! j) \<Longrightarrow> Q z"
    and J: "\<forall>j \<in> J. j < length y"
  shows "rk_stages f t y h rows ks s = Inr (ks', s')
    \<Longrightarrow> \<forall>k \<in> set ks. length k = length y \<and> (\<forall>j \<in> J. k ! j = 0)
    \<Longrightarrow> \<forall>k \<in> set ks'. length k = length y \<and> (\<forall>j \<in> J. k ! j = 0)"
proof (induction rows arbitrary: ks s)
  case Nil
  then show ?case by simp
next
  case (Cons row rows)
  obtain c as where row: "row = (c, as)" by (cases row)
  let ?z = "list_add y (list_scale h (lincomb (length y) as ks))"
  have lc: "length (lincomb (length y) as ks) = length y
            \<and> (\<forall>j \<in> J. lincomb (length y) as ks ! j = 0)"
    by (rule lincomb_zero [OF Cons.prems(2) J])
  have zlen: "length ?z = length y" using lc by (simp add: stage_input(1))
  have zJ: "\<forall>j \<in> J. ?z ! j = y ! j" using lc J by (simp add: stage_input(2))
  have Qz: "Q ?z" by (rule Qinv [OF zlen zJ])
  from Cons.prems(1) row obtain k s1 where
    fk: "f (t + c * h) ?z s = Inr (k, s1)"
    and rest: "rk_stages f t y h rows (ks @ [k]) s1 = Inr (ks', s')"
    by (auto split: sum.splits)
  have kprop: "length k = length y \<and> (\<forall>j \<in> J. k ! j = 0)"
    using F [OF Qz fk] zlen by simp
  have "\<forall>k' \<in> set (ks @ [k]). length k' = length y \<and> (\<forall>j \<in> J. k' ! j = 0)"
    using Cons.prems(2) kprop by auto
  then show ?case by (rule Cons.IH [OF rest])
qed

lemma rk_step_keeps:
  assumes F: "\<And>t z s k s'. Q z \<Longrightarrow> f t z s = Inr (k, s')
                \<Longrightarrow> length k = length z \<and> (\<forall>j \<in> J. k ! j = 0)"
    and Qinv: "\<And>z. length z = length y \<Longrightarrow> (\<forall>j \<in> J. z ! j = y ! j) \<Longrightarrow> Q z"
    and J: "\<forall>j \<in> J. j < length y"
    and step: "rk_step f t y h rows bs s = Inr (y', s')"
  shows "length y' = length y \<and> (\<forall>j \<in> J. y' ! j = y ! j)"
proof -
  from step obtain ks where
    st: "rk_stages f t y h rows [] s = Inr (ks, s')"
    and y': "y' = list_add y (list_scale h (lincomb (length y) bs ks))"
    by (auto simp: rk_step_def split: sum.splits)
  have "\<forall>k \<in> set ks. length k = length y \<and> (\<forall>j \<in> J. k ! j = 0)"
    by (rule rk_stages_zero [OF F Qinv J st]) simp_all
  then have lc: "length (lincomb (length y) bs ks) = length y
            \<and> (\<forall>j \<in> J. lincomb (length y) bs ks ! j = 0)"
    by (rule lincomb_zero [OF _ J])
  show ?thesis
    unfolding y' using lc J by (simp add: stage_input)
qed
subsection \<open>The state derivative\<close>

lemma state_rate_length: "length (state_rate X v a d) = length X"
  by (cases v, cases a) (simp add: state_rate_def)

lemma state_rate_constants:
  assumes "10 \<le> length X"
  shows "state_rate X v a d ! 7 = 0" "state_rate X v a d ! 8 = 0" "state_rate X v a d ! 9 = 0"
  using assms by (cases v; cases a; simp add: state_rate_def)+


lemmas vec_simps = vadd.simps vsub.simps smul.simps sdiv.simps cross.simps norm_v.simps

lemma EarthDynamics_rate:
  assumes "10 \<le> length X"
    and "EarthDynamics_atmosphere e WindData (X ! 0, X ! 1, X ! 2) (t0 + t / (24 * 60 * 60)) hist
           = Inr ((v_atm, rho_a, temp), hist')"
  shows "\<exists>a. EarthDynamics e t X WindData t0 False hist
           = Inr (X_dot (state_rate X (X ! 3, X ! 4, X ! 5) a
                    (- (X ! 9) * (X ! 8) * rho_a * norm_v (vsub (X ! 3, X ! 4, X ! 5) v_atm) ^ 3
                       * (X ! 6) powr (2 / 3) / (2 * (X ! 7) powr (2 / 3)))), hist')"
  using assms by (intro exI) (simp add: EarthDynamics_def Let_def del: vec_simps split_paired_Ex)

lemma EarthDynamics_lift_rate:
  assumes "10 \<le> length X"
    and "EarthDynamics_lift_atmosphere e WindData (X ! 0, X ! 1, X ! 2) (t0 + t / (24 * 60 * 60)) hist
           = ((v_atm, rho_a, temp), hist')"
  shows "\<exists>a. EarthDynamics_lift e t X WindData t0 cl False hist
           = Inr (X_dot (state_rate X (X ! 3, X ! 4, X ! 5) a
                    (- (X ! 9) * (X ! 8) * rho_a * norm_v (vsub (X ! 3, X ! 4, X ! 5) v_atm) ^ 3
                       * (X ! 6) powr (2 / 3) / (2 * (X ! 7) powr (2 / 3)))), hist')"
  using assms by (intro exI) (simp add: EarthDynamics_lift_def Let_def del: vec_simps split_paired_Ex)

lemma EarthDynamics_X_dot:
  assumes "EarthDynamics e t X WindData t0 False hist = Inr (X_dot xd, hist')"
  shows "10 \<le> length X \<and> length xd = length X \<and> xd ! 7 = 0 \<and> xd ! 8 = 0 \<and> xd ! 9 = 0"
proof -
  have len: "10 \<le> length X"
    using assms by (simp add: EarthDynamics_def split: if_splits)
  show ?thesis
  proof (cases "EarthDynamics_atmosphere e WindData (X ! 0, X ! 1, X ! 2)
                  (t0 + t / (24 * 60 * 60)) hist")
    case (Inl err)
    then show ?thesis using assms len by (simp add: EarthDynamics_def Let_def)
  next
    case (Inr r)
    obtain v_atm rho_a temp h1 where r: "r = ((v_atm, rho_a, temp), h1)"
      by (cases r) auto
    from EarthDynamics_rate [OF len Inr [unfolded r]] obtain a d where
      "EarthDynamics e t X WindData t0 False hist
         = Inr (X_dot (state_rate X (X ! 3, X ! 4, X ! 5) a d), h1)"
      by blast
    with assms have "xd = state_rate X (X ! 3, X ! 4, X ! 5) a d" by simp
    then show ?thesis using len by (simp add: state_rate_length state_rate_constants)
  qed
qed

lemma EarthDynamics_lift_X_dot:
  assumes "EarthDynamics_lift e t X WindData t0 cl False hist = Inr (X_dot xd, hist')"
  shows "10 \<le> length X \<and> length xd = length X \<and> xd ! 7 = 0 \<and> xd ! 8 = 0 \<and> xd ! 9 = 0"
proof -
  have len: "10 \<le> length X"
    using assms by (simp add: EarthDynamics_lift_def split: if_splits)
  obtain v_atm rho_a temp h1 where
    r: "EarthDynamics_lift_atmosphere e WindData (X ! 0, X ! 1, X ! 2)
          (t0 + t / (24 * 60 * 60)) hist = ((v_atm, rho_a, temp), h1)"
    by (cases "EarthDynamics_lift_atmosphere e WindData (X ! 0, X ! 1, X ! 2)
          (t0 + t / (24 * 60 * 60)) hist") auto
  from EarthDynamics_lift_rate [OF len r] obtain a d where
    "EarthDynamics_lift e t X WindData t0 cl False hist
       = Inr (X_dot (state_rate X (X ! 3, X ! 4, X ! 5) a d), h1)"
    by blast
  with assms have "xd = state_rate X (X ! 3, X ! 4, X ! 5) a d" by simp
  then show ?thesis using len by (simp add: state_rate_length state_rate_constants)
qed

lemma solver_rhs_constants:
  assumes "solver_rhs e WindData t0 t z s = Inr (k, s')"
  shows "length k = length z \<and> (\<forall>j \<in> {7, 8, 9}. k ! j = 0)"
proof -
  from assms obtain hist where
    "EarthDynamics e t z WindData t0 False s = Inr (X_dot k, hist)"
    by (auto simp: solver_rhs_def split: sum.splits prod.splits dyn_out.splits)
  from EarthDynamics_X_dot [OF this] show ?thesis by simp
qed

lemma solver_rhs_lift_constants:
  assumes "solver_rhs_lift e WindData t0 cl t z s = Inr (k, s')"
  shows "length k = length z \<and> (\<forall>j \<in> {7, 8, 9}. k ! j = 0)"
proof -
  from assms obtain hist where
    "EarthDynamics_lift e t z WindData t0 cl False s = Inr (X_dot k, hist)"
    by (auto simp: solver_rhs_lift_def split: sum.splits prod.splits dyn_out.splits)
  from EarthDynamics_lift_X_dot [OF this] show ?thesis by simp
qed

text \<open>
  C8.  Every evaluation of the dynamics function (either variant) returns a derivative
  whose components for bulk density, shape factor and mass-loss coefficient (indices
  7, 8, 9) are exactly zero, so a step of the integrator leaves \<open>rho_bulk\<close>,
  \<open>shape\<close> and \<open>c_ml\<close> of the state unchanged; the weight is not in the state.
\<close>

theorem constants_not_integrated:
  assumes "10 \<le> length X"
  shows "(EarthDynamics e t X WindData t0 False hist = Inr (X_dot xd, hist')
            \<longrightarrow> length xd = length X \<and> xd ! 7 = 0 \<and> xd ! 8 = 0 \<and> xd ! 9 = 0)
       \<and> (EarthDynamics_lift e t X WindData t0 cl False hist = Inr (X_dot xd, hist')
            \<longrightarrow> length xd = length X \<and> xd ! 7 = 0 \<and> xd ! 8 = 0 \<and> xd ! 9 = 0)
       \<and> (rk_step (solver_rhs e WindData t0) t X h rows bs hist = Inr (X', hist')
            \<longrightarrow> length X' = length X \<and> X' ! 7 = X ! 7 \<and> X' ! 8 = X ! 8 \<and> X' ! 9 = X ! 9)
       \<and> (rk_step (solver_rhs_lift e WindData t0 cl) t X h rows bs hist = Inr (X', hist')
            \<longrightarrow> length X' = length X \<and> X' ! 7 = X ! 7 \<and> X' ! 8 = X ! 8 \<and> X' ! 9 = X ! 9)"
proof -
  have J: "\<forall>j \<in> {7, 8, 9::nat}. j < length X" using assms by simp
  have a: "length xd = length X \<and> xd ! 7 = 0 \<and> xd ! 8 = 0 \<and> xd ! 9 = 0"
    if "EarthDynamics e t X WindData t0 False hist = Inr (X_dot xd, hist')"
    using EarthDynamics_X_dot [OF that] by simp
  have b: "length xd = length X \<and> xd ! 7 = 0 \<and> xd ! 8 = 0 \<and> xd ! 9 = 0"
    if "EarthDynamics_lift e t X WindData t0 cl False hist = Inr (X_dot xd, hist')"
    using EarthDynamics_lift_X_dot [OF that] by simp
  have c: "length X' = length X \<and> X' ! 7 = X ! 7 \<and> X' ! 8 = X ! 8 \<and> X' ! 9 = X ! 9"
    if "rk_step (solver_rhs e WindData t0) t X h rows bs hist = Inr (X', hist')"
    using rk_step_keeps [where Q = "\<lambda>z. True" and J = "{7, 8, 9}", OF _ _ J that]
      solver_rhs_constants by simp
  have d: "length X' = length X \<and> X' ! 7 = X ! 7 \<and> X' ! 8 = X ! 8 \<and> X' ! 9 = X ! 9"
    if "rk_step (solver_rhs_lift e WindData t0 cl) t X h rows bs hist = Inr (X', hist')"
    using rk_step_keeps [where Q = "\<lambda>z. True" and J = "{7, 8, 9}", OF _ _ J that]
      solver_rhs_lift_constants by simp
  show ?thesis using a b c d by blast
qed
subsection \<open>A step returns when the right-hand side does\<close>

lemma lincomb_length:
  assumes "\<forall>k \<in> set ks. length k = n"
  shows "length (lincomb n as ks) = n"
  using lincomb_zero [where J = "{}", of ks n as] assms by simp

lemma rk_stages_total:
  assumes tot: "\<And>t z s. length z = length y
                  \<Longrightarrow> \<exists>k s'. f t z s = Inr (k, s') \<and> length k = length z"
  shows "\<forall>k \<in> set ks. length k = length y
    \<Longrightarrow> \<exists>ks' s'. rk_stages f t y h rows ks s = Inr (ks', s')"
proof (induction rows arbitrary: ks s)
  case Nil
  then show ?case by simp
next
  case (Cons row rows)
  obtain c as where row: "row = (c, as)" by (cases row)
  let ?z = "list_add y (list_scale h (lincomb (length y) as ks))"
  have zlen: "length ?z = length y"
    using lincomb_length [OF Cons.prems] by (simp add: stage_input(1))
  from tot [OF zlen] obtain k s1 where
    fk: "f (t + c * h) ?z s = Inr (k, s1)" and klen: "length k = length y"
    using zlen by metis
  have "\<forall>k' \<in> set (ks @ [k]). length k' = length y"
    using Cons.prems klen by auto
  from Cons.IH [OF this] obtain ks' s' where
    "rk_stages f t y h rows (ks @ [k]) s1 = Inr (ks', s')" by blast
  then show ?case using row fk by simp
qed

lemma rk_step_total:
  assumes "\<And>t z s. length z = length y
             \<Longrightarrow> \<exists>k s'. f t z s = Inr (k, s') \<and> length k = length z"
  shows "\<exists>y' s'. rk_step f t y h rows bs s = Inr (y', s')"
proof -
  from rk_stages_total [of y f "[]" t h rows s, OF assms] obtain ks' s' where
    "rk_stages f t y h rows [] s = Inr (ks', s')" by auto
  then show ?thesis by (simp add: rk_step_def)
qed

lemma atmosphere_Table:
  assumes "rows \<noteq> []"
  shows "EarthDynamics_atmosphere e (Table rows) p t_jd s
    = Inr (AtmosphericModel e
        (if snd (snd (ECEF2LLH e (ECI2ECEF_pos e p t_jd))) > Max (set (map Height rows))
         then [] else rows) p t_jd s)"
  using assms by (simp add: EarthDynamics_atmosphere_def Let_def)

lemma solver_rhs_total:
  assumes "rows \<noteq> []" and "10 \<le> length z"
  shows "\<exists>k s'. solver_rhs e (Table rows) t0 t z s = Inr (k, s') \<and> length k = length z"
proof -
  obtain r where
    "EarthDynamics_atmosphere e (Table rows) (z ! 0, z ! 1, z ! 2) (t0 + t / (24 * 60 * 60)) s
       = Inr r"
    using atmosphere_Table [OF assms(1)] by blast
  moreover obtain v_atm rho_a temp h1 where "r = ((v_atm, rho_a, temp), h1)"
    by (cases r) auto
  ultimately obtain a d where
    "EarthDynamics e t z (Table rows) t0 False s
       = Inr (X_dot (state_rate z (z ! 3, z ! 4, z ! 5) a d), h1)"
    using EarthDynamics_rate [OF assms(2), of e "Table rows" t0 t s] by blast
  then show ?thesis by (simp add: solver_rhs_def state_rate_length)
qed

lemma solver_rhs_lift_total:
  assumes "10 \<le> length z"
  shows "\<exists>k s'. solver_rhs_lift e WindData t0 cl t z s = Inr (k, s') \<and> length k = length z"
proof -
  obtain v_atm rho_a temp h1 where
    "EarthDynamics_lift_atmosphere e WindData (z ! 0, z ! 1, z ! 2) (t0 + t / (24 * 60 * 60)) s
       = ((v_atm, rho_a, temp), h1)"
    by (cases "EarthDynamics_lift_atmosphere e WindData (z ! 0, z ! 1, z ! 2)
                 (t0 + t / (24 * 60 * 60)) s") auto
  from EarthDynamics_lift_rate [OF assms this] obtain a d where
    "EarthDynamics_lift e t z WindData t0 cl False s
       = Inr (X_dot (state_rate z (z ! 3, z ! 4, z ! 5) a d), h1)"
    by blast
  then show ?thesis by (simp add: solver_rhs_lift_def state_rate_length)
qed

theorem constants_not_integrated_witness:
  "10 \<le> length state0
   \<and> (\<exists>xd hist'. EarthDynamics sphere_env 0 state0 (Table sounding0) 2460000 False []
                     = Inr (X_dot xd, hist')
          \<and> length xd = 10 \<and> xd ! 7 = 0 \<and> xd ! 8 = 0 \<and> xd ! 9 = 0)
   \<and> (\<exists>X' hist'. rk_step (solver_rhs sphere_env (Table sounding0) 2460000) 0 state0 (1 / 10)
                     dopri5_rows dopri5_b [] = Inr (X', hist')
          \<and> length X' = 10 \<and> X' ! 7 = 3500 \<and> X' ! 8 = 121 / 100 \<and> X' ! 9 = 84 / 10 ^ 9)"
proof -
  have len: "10 \<le> length state0" by (simp add: state0_def)
  have ne: "sounding0 \<noteq> []" by (simp add: sounding0_def)
  have vals: "length state0 = 10" "state0 ! 7 = 3500" "state0 ! 8 = 121 / 100"
    "state0 ! 9 = 84 / 10 ^ 9"
    by (simp_all add: state0_def)
  obtain xd h1 where
    ev: "solver_rhs sphere_env (Table sounding0) 2460000 0 state0 [] = Inr (xd, h1)"
    using solver_rhs_total [OF ne len] by blast
  then have ed: "EarthDynamics sphere_env 0 state0 (Table sounding0) 2460000 False []
                   = Inr (X_dot xd, h1)"
    by (auto simp: solver_rhs_def split: sum.splits prod.splits dyn_out.splits)
  obtain X' h2 where
    st: "rk_step (solver_rhs sphere_env (Table sounding0) 2460000) 0 state0 (1 / 10)
           dopri5_rows dopri5_b [] = Inr (X', h2)"
    using rk_step_total [of state0 "solver_rhs sphere_env (Table sounding0) 2460000"]
      solver_rhs_total [OF ne] len by (metis (no_types, lifting))
  have a: "length xd = 10 \<and> xd ! 7 = 0 \<and> xd ! 8 = 0 \<and> xd ! 9 = 0"
    using constants_not_integrated [OF len, of sphere_env 0 "Table sounding0" 2460000 "[]" xd h1]
      ed vals by simp
  have b: "length X' = 10 \<and> X' ! 7 = 3500 \<and> X' ! 8 = 121 / 100 \<and> X' ! 9 = 84 / 10 ^ 9"
    using constants_not_integrated [OF len, of sphere_env 0 "Table sounding0" 2460000 "[]" _ h2
        0 "1 / 10" dopri5_rows dopri5_b X'] st vals by simp
  show ?thesis using len ed a st b by blast
qed

subsection \<open>The mass rate\<close>


lemma norm_v_x_axis: "norm_v (x, 0, 0) = \<bar>x\<bar>"
  by simp

lemma norm_v_z_axis: "norm_v (0, 0, z) = \<bar>z\<bar>"
  by simp










subsection \<open>The atmosphere sampler\<close>




lemma AtmosphericModel_below:
  assumes "rows \<noteq> []"
    and "snd (snd (ECEF2LLH e (ECEF2LLH e Pos_ECI))) < Min (set (map Height rows))"
  shows "snd (fst (AtmosphericModel e rows Pos_ECI t_jd hist))
         = (density_from_pressure (TempK (rows ! argmin (map Height rows)))
              (Press (rows ! argmin (map Height rows)))
              (RHum (rows ! argmin (map Height rows))),
            TempK (rows ! argmin (map Height rows)))"
    and "fst (last (snd (AtmosphericModel e rows Pos_ECI t_jd hist)))
         = snd (snd (ECEF2LLH e (ECEF2LLH e Pos_ECI)))"
proof -
  let ?h = "snd (snd (ECEF2LLH e (ECEF2LLH e Pos_ECI)))"
  obtain x where x: "x \<in> set (map Height rows)" using assms(1) by (cases rows) auto
  have "Min (set (map Height rows)) \<le> x" "x \<le> Max (set (map Height rows))"
    using x by (simp_all del: set_map)
  then have c1: "\<not> ?h > Max (set (map Height rows))"
    and c2: "\<not> (?h \<le> Max (set (map Height rows)) \<and> ?h \<ge> Min (set (map Height rows)))"
    using assms(2) by linarith+
  show "snd (fst (AtmosphericModel e rows Pos_ECI t_jd hist))
         = (density_from_pressure (TempK (rows ! argmin (map Height rows)))
              (Press (rows ! argmin (map Height rows)))
              (RHum (rows ! argmin (map Height rows))),
            TempK (rows ! argmin (map Height rows)))"
    using assms(1) c1 c2
    by (simp add: AtmosphericModel_def Let_def split_beta
             del: vec_simps set_map Max_less_iff Max_le_iff Min_less_iff Min_le_iff
                  Max_gr_iff Max_ge_iff Min_gr_iff Min_ge_iff)
  show "fst (last (snd (AtmosphericModel e rows Pos_ECI t_jd hist))) = ?h"
    using assms(1)
    by (simp add: AtmosphericModel_def Let_def split_beta del: vec_simps set_map)
qed



lemma sphere_LLH_x_axis:
  assumes "0 < x"
  shows "ECEF2LLH sphere_env (x, 0, 0) = (0, 0, x - 6371000)"
  using assms by (simp add: sphere_env_def arctan2_def norm_v_x_axis del: norm_v.simps)

lemma sphere_LLH_z_axis:
  assumes "0 < z"
  shows "ECEF2LLH sphere_env (0, 0, z) = (pi / 2, 0, z - 6371000)"
  using assms by (simp add: sphere_env_def arctan2_def norm_v_z_axis del: norm_v.simps)



text \<open>
  C3 (the code at a failing input).  A query 20 km above the sphere, inside the
  sounding's range of 0 to 30 km: the sampler converts the position with
  \<^verbatim>\<open>ECEF2LLH\<close> twice, takes \<open>-6351000\<close> for the height, records that in the
  history and returns the lowest layer's temperature instead of interpolating at
  20000.
\<close>

theorem atm_height_twice_converted:
  "snd (snd (ECEF2LLH sphere_env (ECI2ECEF_pos sphere_env (6391000, 0, 0) 2460000))) = 20000
   \<and> Min (set (map Height sounding0)) = 0 \<and> Max (set (map Height sounding0)) = 30000
   \<and> fst (last (snd (AtmosphericModel sphere_env sounding0 (6391000, 0, 0) 2460000 [])))
       = - 6351000
   \<and> snd (snd (fst (AtmosphericModel sphere_env sounding0 (6391000, 0, 0) 2460000 []))) = 288
   \<and> interp1d_cubic sphere_env (map Height sounding0) (map TempK sounding0) 20000
       = 740 / 3"
proof -
  have frame: "ECI2ECEF_pos sphere_env p t = p" for p t by (simp add: sphere_env_def)
  have h1: "snd (snd (ECEF2LLH sphere_env (ECI2ECEF_pos sphere_env (6391000, 0, 0) 2460000)))
              = 20000"
    by (simp add: frame sphere_LLH_x_axis)
  have m: "Max (set (map Height sounding0)) = 30000" by (simp add: sounding0_def)
  have mn: "Min (set (map Height sounding0)) = 0" by (simp add: sounding0_def)
  have h2: "snd (snd (ECEF2LLH sphere_env (ECEF2LLH sphere_env (6391000, 0, 0)))) = - 6351000"
    by (simp add: sphere_LLH_x_axis sphere_LLH_z_axis)
  have am: "argmin (map Height sounding0) = 0" by (simp add: argmin_def sounding0_def)
  have bot: "TempK (sounding0 ! 0) = 288" by (simp add: sounding0_def)
  have ne: "sounding0 \<noteq> []" by (simp add: sounding0_def)
  have lt: "snd (snd (ECEF2LLH sphere_env (ECEF2LLH sphere_env (6391000, 0, 0))))
              < Min (set (map Height sounding0))"
    unfolding h2 mn by simp
  have hh: "fst (last (snd (AtmosphericModel sphere_env sounding0 (6391000, 0, 0) 2460000 [])))
       = - 6351000"
    unfolding AtmosphericModel_below(2) [OF ne lt] by (rule h2)
  have t: "snd (snd (fst (AtmosphericModel sphere_env sounding0 (6391000, 0, 0) 2460000 [])))
             = 288"
    unfolding AtmosphericModel_below(1) [OF ne lt] am using bot by simp
  have ip: "interp1d_cubic sphere_env (map Height sounding0) (map TempK sounding0) 20000
       = 740 / 3"
    by (simp add: sphere_env_def sounding0_def)
  show ?thesis using h1 mn m hh t ip by (intro conjI)
qed

subsection \<open>The observer and the recorded samples\<close>




lemma norm_l_Nil: "norm_l [] = 0"
  by (simp add: norm_l_def)

lemma take3: "3 \<le> length X \<Longrightarrow> take 3 X = [X ! 0, X ! 1, X ! 2]"
  by (rule nth_equalityI) (auto simp: less_Suc_eq eval_nat_numeral)

lemma norm_l_x_axis: "norm_l [x, 0, 0] = \<bar>x\<bar>"
  by (simp add: norm_l_def)


lemma solout_Inr:
  assumes "solout e h_ground t0 t X rec = Inr (c, rec')"
  shows "rec' = (fst rec @ [X], snd rec @ [t]) \<and> 3 \<le> length X
         \<and> (\<not> c < 0 \<longrightarrow> 6 < length X \<and> 1 / 1000 \<le> X ! 6)"
  using assms
  by (auto simp: solout_def column3_def Let_def split: if_splits sum.splits prod.splits)

lemma solout_lift_Inr:
  assumes "solout_lift r_end t X rec = Inr (c, rec')"
  shows "rec' = (fst rec @ [X], snd rec @ [t])
         \<and> (\<not> c < 0 \<longrightarrow> 6 < length X \<and> 1 / 1000 \<le> X ! 6)"
  using assms
  by (auto simp: solout_lift_def Let_def split: if_splits)


lemma integrate_first:
  assumes obs: "\<And>t X rec c rec'. observer t X rec = Inr (c, rec')
            \<Longrightarrow> rec' = (fst rec @ [X], snd rec @ [t])"
    and fire: "observer t X rec = Inr (c, rec')" and c: "c < 0"
  shows "integrate step observer n (t, X) s rec = Inr (s, (fst rec @ [X], snd rec @ [t]))"
  using obs [OF fire] fire c by (cases n) simp_all

lemma backtracked_single:
  "10 \<le> length X \<Longrightarrow> backtracked T [X] fr = Inr (Finite (T, [X]))"
  by (simp add: backtracked_def)

text \<open>
  C10.  When the observer ends the integration on the first sample it is given (the
  initial value; for instance when the initial position is already below the terminal
  radius), \<^verbatim>\<open>Propagate\<close> returns a trajectory of that one sample, at time \<open>t0\<close> and
  unchanged: the interpolation towards the ground is skipped.  This holds in
  DFN_DarkFlight.py and in DarkFlight_main.py, where the fraction computed from the
  empty slice is returned beside it.
\<close>

theorem first_sample_terminates:
  "(solout e h_ground t0 0 X ([], []) = Inr (- 1, rec) \<and> 10 \<le> length X
      \<and> Propagate_newWindData WindData ws wd mc g = Inr (W, g')
     \<longrightarrow> Propagate e accept nsteps (t0 # X) (WindData, h_ground, ws, wd, mc) g hist
           = Inr (Finite ([t0], [X]), g', hist))
   \<and> (solout_lift (EarthRadius e (fst (ECEF2LLH e (X ! 0, X ! 1, X ! 2))) + h_ground_l)
          0 X ([], []) = Inr (- 1, rec_l) \<and> 10 \<le> length X
     \<longrightarrow> Propagate_lift e accept nsteps (t0 # X) (WindData, h_ground_l, c_lift) hist
           = Inr ((Finite ([t0], [X]),
                   fraction_of [X]
                     (EarthRadius e (fst (ECEF2LLH e (X ! 0, X ! 1, X ! 2))) + h_ground_l)),
                  hist))"
proof (intro conjI impI)
  assume a: "solout e h_ground t0 0 X ([], []) = Inr (- 1, rec) \<and> 10 \<le> length X
      \<and> Propagate_newWindData WindData ws wd mc g = Inr (W, g')"
  then have fire: "solout e h_ground t0 0 X ([], []) = Inr (- 1, rec)"
    and len: "10 \<le> length X"
    and nw: "Propagate_newWindData WindData ws wd mc g = Inr (W, g')" by simp_all
  have i: "integrate (accept (solver_rhs e W t0)) (solout e h_ground t0) nsteps (0, X) hist
             ([], []) = Inr (hist, ([X], [0]))"
    using integrate_first [of "solout e h_ground t0" 0 X "([], [])" "- 1" rec]
      solout_Inr fire by force
  obtain lt lon ht where llh: "ECEF2LLH e (ECI2ECEF_pos e (X ! 0, X ! 1, X ! 2) t0) = (lt, lon, ht)"
    by (cases "ECEF2LLH e (ECI2ECEF_pos e (X ! 0, X ! 1, X ! 2) t0)")
  obtain hg where hg: "h_gnd e h_ground lt lon = Inr hg"
    using fire llh len
    by (auto simp: solout_def column3_def Let_def split: if_splits sum.splits prod.splits)
  have b: "Propagate_backtrack e h_ground t0 ([X], [0]) = Inr (Finite ([t0], [X]))"
    using len llh hg
    by (simp add: Propagate_backtrack_def column3_def backtracked_single)
  show "Propagate e accept nsteps (t0 # X) (WindData, h_ground, ws, wd, mc) g hist
           = Inr (Finite ([t0], [X]), g', hist)"
    by (simp add: Propagate_def nw i b)
next
  let ?r = "EarthRadius e (fst (ECEF2LLH e (X ! 0, X ! 1, X ! 2))) + h_ground_l"
  assume a: "solout_lift ?r 0 X ([], []) = Inr (- 1, rec_l) \<and> 10 \<le> length X"
  then have fire: "solout_lift ?r 0 X ([], []) = Inr (- 1, rec_l)"
    and len: "10 \<le> length X" by simp_all
  have i: "integrate (accept (solver_rhs_lift e WindData t0 c_lift)) (solout_lift ?r) nsteps
             (0, X) hist ([], []) = Inr (hist, ([X], [0]))"
    using integrate_first [of "solout_lift ?r" 0 X "([], [])" "- 1" rec_l]
      solout_lift_Inr fire by force
  have b: "Propagate_lift_backtrack e h_ground_l t0 ([X], [0])
             = Inr (Finite ([t0], [X]), fraction_of [X] ?r)"
    using len
    by (simp add: Propagate_lift_backtrack_def column3_def backtracked_single
          del: One_nat_def)
  show "Propagate_lift e accept nsteps (t0 # X) (WindData, h_ground_l, c_lift) hist
           = Inr ((Finite ([t0], [X]), fraction_of [X] ?r), hist)"
    using len by (simp add: Propagate_lift_def column3_def i b del: One_nat_def)
qed

lemma sphere_solout:
  assumes "3 \<le> length X"
  shows "solout sphere_env (Ground_float hg) t0 t X rec =
           (if norm_l (take 3 X) < 6371000 + hg then Inr (- 1, (fst rec @ [X], snd rec @ [t]))
            else if length X \<le> 6 then Inl IndexError
            else if X ! 6 < 1 / 1000 then Inr (- 1, (fst rec @ [X], snd rec @ [t]))
            else Inr (0, (fst rec @ [X], snd rec @ [t])))"
  using assms
  by (simp add: solout_def column3_def sphere_env_def h_gnd_def Let_def split: prod.splits)



lemma newWindData_mc0: "Propagate_newWindData W ws wd 0 g = Inr (W, g)"
  by (simp add: Propagate_newWindData_def)

theorem first_sample_terminates_witness:
  "solout sphere_env (Ground_float 0) 2460000 0 X_below ([], []) = Inr (- 1, ([X_below], [0]))
   \<and> 10 \<le> length X_below
   \<and> Propagate_newWindData (Table []) 0 0 0 (\<lambda>i. 0, 0) = Inr (Table [], (\<lambda>i. 0, 0))
   \<and> Propagate sphere_env (falling_step (- 200) 0) 500 (2460000 # X_below)
         (Table [], Ground_float 0, 0, 0, 0) (\<lambda>i. 0, 0) []
       = Inr (Finite ([2460000], [X_below]), (\<lambda>i. 0, 0), [])
   \<and> norm_l (take 3 X_below) = 6370000
   \<and> EarthRadius sphere_env (fst (ECEF2LLH sphere_env (X_below ! 0, X_below ! 1, X_below ! 2)))
        + 0 = 6371000
   \<and> solout_lift 6371000 0 X_below ([], []) = Inr (- 1, ([X_below], [0]))
   \<and> Propagate_lift sphere_env (falling_step (- 200) 0) 500 (2460000 # X_below)
         (Table [], 0, 0) []
       = Inr ((Finite ([2460000], [X_below]), Some (6371 / 6370)), [])"
proof -
  have len: "10 \<le> length X_below" by (simp add: X_below_def)
  have t3: "take 3 X_below = [6370000, 0, 0]" by (simp add: X_below_def)
  have n: "norm_l (take 3 X_below) = 6370000" unfolding t3 norm_l_x_axis by simp
  have s: "solout sphere_env (Ground_float 0) 2460000 0 X_below ([], [])
             = Inr (- 1, ([X_below], [0]))"
    using len by (simp add: sphere_solout n)
  have w: "Propagate_newWindData (Table []) 0 0 0 (\<lambda>i. 0, 0) = Inr (Table [], (\<lambda>i. 0, 0))"
    by (rule newWindData_mc0)
  have r: "EarthRadius sphere_env
             (fst (ECEF2LLH sphere_env (X_below ! 0, X_below ! 1, X_below ! 2))) + 0 = 6371000"
    by (simp add: sphere_env_def)
  have sl: "solout_lift 6371000 0 X_below ([], []) = Inr (- 1, ([X_below], [0]))"
    by (simp add: solout_lift_def n)
  have fr: "fraction_of [X_below] 6371000 = Some (6371 / 6370)"
    by (simp add: fraction_of_def prev_position_def n norm_l_Nil)
  note th = first_sample_terminates [where e = sphere_env and h_ground = "Ground_float 0"
      and ?t0.0 = 2460000 and X = X_below and rec = "([X_below], [0])"
      and WindData = "Table []" and ws = 0 and wd = 0 and mc = 0 and g = "(\<lambda>i. 0, 0)"
      and W = "Table []" and g' = "(\<lambda>i. 0, 0)" and accept = "falling_step (- 200) 0"
      and nsteps = 500 and hist = "[]" and h_ground_l = 0 and rec_l = "([X_below], [0])"
      and c_lift = 0]
  have p: "Propagate sphere_env (falling_step (- 200) 0) 500 (2460000 # X_below)
         (Table [], Ground_float 0, 0, 0, 0) (\<lambda>i. 0, 0) []
       = Inr (Finite ([2460000], [X_below]), (\<lambda>i. 0, 0), [])"
    using th s len w by blast
  have sl': "solout_lift (EarthRadius sphere_env
               (fst (ECEF2LLH sphere_env (X_below ! 0, X_below ! 1, X_below ! 2))) + 0)
               0 X_below ([], []) = Inr (- 1, ([X_below], [0]))"
    unfolding r by (rule sl)
  have pl: "Propagate_lift sphere_env (falling_step (- 200) 0) 500 (2460000 # X_below)
         (Table [], 0, 0) []
       = Inr ((Finite ([2460000], [X_below]), Some (6371 / 6370)), [])"
    using th sl' len unfolding r fr by blast
  show ?thesis using s len w p n r sl pl by (intro conjI)
qed


subsection \<open>The mass of the recorded samples\<close>


















subsection \<open>The interpolation towards the ground\<close>


lemma interpolate_length: "length (interpolate f xs ys) = min (length xs) (length ys)"
  by (simp add: interpolate_def)












end
